theory Spec2Isabelle
  imports Main "HOL-Library.Word" "HOL-Library.Sublist"
begin

unbundle bit_operations_syntax

section \<open>MainsSwitch: a relay switched over MQTT (Homie convention)\<close>

text \<open>
  The repository holds two sketches with the same functions. \<^verbatim>\<open>MainsSwitch.ino\<close> drives the
  relay on GPIO2, active high. The second file (\<^verbatim>\<open>part_000\<close>) drives the relay on GPIO0,
  active low (``port value high means the relay is off''), and shows readiness on the built-in
  LED. The functions \<^verbatim>\<open>equals\<close>, \<^verbatim>\<open>getConfig\<close>, \<^verbatim>\<open>mqttPublish\<close>, \<^verbatim>\<open>mqttAnnounce\<close> and
  \<^verbatim>\<open>mqttConnect\<close> are the same text in both files; \<^verbatim>\<open>RelayPort\<close>, \<^verbatim>\<open>mqttCallback\<close> and
  \<^verbatim>\<open>loop\<close> differ. Definitions without a suffix follow \<^verbatim>\<open>MainsSwitch.ino\<close>, definitions
  with the suffix \<open>_p0\<close> follow \<^verbatim>\<open>part_000\<close>.
\<close>

subsection \<open>Data model\<close>

type_synonym byte = "8 word"

text \<open>
  The \<^verbatim>\<open>mqtt\<close> section of the \<^verbatim>\<open>JsonDocument cfg\<close>, reduced to the lookups the code makes:
  a \<^verbatim>\<open>const char*\<close> lookup gives a null pointer when the member is missing (\<open>None\<close>), and
  \<^verbatim>\<open>mqttCfg["port"] | 1883\<close> takes the default when the member is no integer (\<open>None\<close>).
\<close>

record mqtt_section =
  broker :: "string option"
  port :: "int option"
  user :: "string option"
  password :: "string option"

text \<open>
  Every line written to \<^verbatim>\<open>Serial\<close> by the modelled functions, with its arguments:
  \<^item> \<open>HostNameNotSet\<close>: \<^verbatim>\<open>println("hostName not set")\<close>
  \<^item> \<open>Publishing value topic\<close>: \<^verbatim>\<open>printf("Publishing '%s' to '%s' ", value, topic)\<close>
  \<^item> \<open>PublishFailed\<close>: \<^verbatim>\<open>println("failed")\<close>
  \<^item> \<open>PublishSucceeded\<close>: \<^verbatim>\<open>println("succeeded")\<close>
  \<^item> \<open>CouldNotPublishMessage\<close>: \<^verbatim>\<open>println("Could not publish message")\<close>
  \<^item> \<open>CouldNotConnect broker port state\<close>:
    \<^verbatim>\<open>printf("Could not connect to MQTT broker %s:%d -  state %d\n", broker, port, mqttClient.state())\<close>
  \<^item> \<open>CouldNotSubscribe\<close>: \<^verbatim>\<open>println("Could not subscribe")\<close>
  \<^item> \<open>SubscribedTo buffer\<close>: \<^verbatim>\<open>printf("Subscribed to topic '%s'\n", buffer)\<close>
  \<^item> \<open>Reconnecting\<close>: \<^verbatim>\<open>println("Reconnecting to MQTT")\<close>
\<close>

datatype serial_line =
    HostNameNotSet
  | Publishing "string option" string
  | PublishFailed
  | PublishSucceeded
  | CouldNotPublishMessage
  | CouldNotConnect "string option" int int
  | CouldNotSubscribe
  | SubscribedTo string
  | Reconnecting

text \<open>
  The calls the sketch makes on the hardware, the MQTT client and the scheduler, in the order
  they are made. \<open>Connected\<close> and \<open>State\<close> are the queries \<^verbatim>\<open>mqttClient.connected()\<close> and
  \<^verbatim>\<open>mqttClient.state()\<close>; \<open>Loop\<close> is \<^verbatim>\<open>mqttClient.loop()\<close>.
\<close>

datatype event =
    DigitalWrite nat bool
  | Serial serial_line
  | SetBufferSize nat
  | SetServer "string option" int
  | SetCallback
  | Connect "string option" "string option" "string option"
  | Connected
  | State
  | Yield
  | Subscribe string
  | Publish string "string option"
  | Loop
  | Delay nat

text \<open>
  The globals of the sketch (\<^verbatim>\<open>cfg\<close>, \<^verbatim>\<open>hostName\<close>, \<^verbatim>\<open>relaySwitched\<close>, \<^verbatim>\<open>mqttReady\<close>), the level
  of every GPIO pin (\<open>True\<close> is \<^verbatim>\<open>HIGH\<close>), and the calls made so far.
\<close>

record device =
  pins :: "nat \<Rightarrow> bool"
  cfg_mqtt :: "mqtt_section option"
  hostName :: "string option"
  relaySwitched :: bool
  mqttReady :: bool
  trace :: "event list"

text \<open>
  The PubSubClient library and the broker behind it are not part of the repository. Each of
  its answers is a function of the calls made so far, the call being answered included:
  the result of \<^verbatim>\<open>connect\<close>, \<^verbatim>\<open>connected\<close>, \<^verbatim>\<open>state\<close>, \<^verbatim>\<open>publish\<close> and \<^verbatim>\<open>subscribe\<close>, and
  for \<^verbatim>\<open>loop\<close> the inbound messages (topic, payload buffer, length) it hands to the callback,
  with its result. \<open>LED_BUILTIN\<close> is the pin number the board definition gives to the macro of
  that name.
\<close>

record env =
  connectR :: "event list \<Rightarrow> bool"
  connectedR :: "event list \<Rightarrow> bool"
  stateR :: "event list \<Rightarrow> int"
  publishR :: "event list \<Rightarrow> bool"
  subscribeR :: "event list \<Rightarrow> bool"
  loopR :: "event list \<Rightarrow> (string \<times> string \<times> nat) list \<times> bool"
  LED_BUILTIN :: nat

definition RelayPort :: nat where
  "RelayPort = 2"

definition RelayPort_p0 :: nat where
  "RelayPort_p0 = 0"

definition trueString :: string where
  "trueString = ''true''"

definition falseString :: string where
  "falseString = ''false''"

definition HIGH :: bool where
  "HIGH = True"

definition LOW :: bool where
  "LOW = False"

subsection \<open>Hardware and logging primitives\<close>

definition emit :: "event \<Rightarrow> device \<Rightarrow> device" where
  "emit e s = s\<lparr>trace := trace s @ [e]\<rparr>"

text \<open>
  \<^verbatim>\<open>digitalRead\<close> of an output pin gives the level last driven on it; \<^verbatim>\<open>digitalWrite\<close> drives
  the level and is recorded as a call.
\<close>

definition digitalRead :: "nat \<Rightarrow> device \<Rightarrow> bool" where
  "digitalRead pin s = pins s pin"

definition digitalWrite :: "nat \<Rightarrow> bool \<Rightarrow> device \<Rightarrow> device" where
  "digitalWrite pin level s = emit (DigitalWrite pin level) (s\<lparr>pins := (pins s)(pin := level)\<rparr>)"

fun isPublish :: "event \<Rightarrow> bool" where
  "isPublish (Publish t v) = True"
| "isPublish _ = False"

fun isDigitalWrite :: "event \<Rightarrow> bool" where
  "isDigitalWrite (DigitalWrite p l) = True"
| "isDigitalWrite _ = False"

fun isConnect :: "event \<Rightarrow> bool" where
  "isConnect (Connect h u p) = True"
| "isConnect _ = False"

fun isYield :: "event \<Rightarrow> bool" where
  "isYield Yield = True"
| "isYield _ = False"

text \<open>How many of the calls made so far are of a given kind.\<close>

definition count_events :: "(event \<Rightarrow> bool) \<Rightarrow> device \<Rightarrow> nat" where
  "count_events P s = length (filter P (trace s))"

subsection \<open>\<^verbatim>\<open>equals\<close>\<close>

text \<open>
  \<^verbatim>\<open>bool equals(byte* payload, unsigned int length, const char* expectation)\<close>.
  The payload buffer is a list of bytes (an Isabelle \<open>char\<close> is a byte, so the cast
  \<^verbatim>\<open>static_cast<char>(payload[i])\<close> is the identity); \<open>len\<close> is the \<^verbatim>\<open>length\<close> argument;
  \<^verbatim>\<open>strlen(expectation)\<close> is the length of the literal. \<open>equals_loop\<close> is the \<^verbatim>\<open>for\<close> loop
  from index \<open>i\<close>.
\<close>

function equals_loop :: "string \<Rightarrow> nat \<Rightarrow> string \<Rightarrow> nat \<Rightarrow> bool" where
  "equals_loop payload len expectation i =
     (if i < len then
        (if expectation ! i \<noteq> payload ! i then False
         else equals_loop payload len expectation (i + 1))
      else True)"
  by pat_completeness auto
termination
  by (relation "measure (\<lambda>(payload, len, expectation, i). len - i)") auto

declare equals_loop.simps [simp del]

definition equals :: "string \<Rightarrow> nat \<Rightarrow> string \<Rightarrow> bool" where
  "equals payload len expectation =
     (if len \<noteq> length expectation then False
      else equals_loop payload len expectation 0)"

subsection \<open>\<^verbatim>\<open>mqttCallback\<close>\<close>

text \<open>
  \<^verbatim>\<open>MainsSwitch.ino\<close>: \<^verbatim>\<open>"true"\<close> on a low port drives it high, \<^verbatim>\<open>"false"\<close> on a high port
  drives it low. The two \<^verbatim>\<open>if\<close> statements run one after the other.
\<close>

definition mqttCallback :: "string \<Rightarrow> string \<Rightarrow> nat \<Rightarrow> device \<Rightarrow> device" where
  "mqttCallback topic payload len s =
     (let s1 = (if equals payload len trueString \<and> \<not> digitalRead RelayPort s
                then digitalWrite RelayPort HIGH (s\<lparr>relaySwitched := True\<rparr>)
                else s);
          s2 = (if equals payload len falseString \<and> digitalRead RelayPort s1
                then digitalWrite RelayPort LOW (s1\<lparr>relaySwitched := True\<rparr>)
                else s1)
      in s2)"

text \<open>
  \<^verbatim>\<open>part_000\<close>: the relay is on when the port is low. \<^verbatim>\<open>"true"\<close> on a high port drives it
  low, \<^verbatim>\<open>"false"\<close> on a low port drives it high.
\<close>

definition mqttCallback_p0 :: "string \<Rightarrow> string \<Rightarrow> nat \<Rightarrow> device \<Rightarrow> device" where
  "mqttCallback_p0 topic payload len s =
     (let s1 = (if equals payload len trueString \<and> (digitalRead RelayPort_p0 s = HIGH)
                then digitalWrite RelayPort_p0 LOW (s\<lparr>relaySwitched := True\<rparr>)
                else s);
          s2 = (if equals payload len falseString \<and> (digitalRead RelayPort_p0 s1 = LOW)
                then digitalWrite RelayPort_p0 HIGH (s1\<lparr>relaySwitched := True\<rparr>)
                else s1)
      in s2)"

subsection \<open>\<^verbatim>\<open>mqttPublish\<close>\<close>

text \<open>
  \<^verbatim>\<open>SafeCString::sprintf(buffer, ...)\<close> writes the formatted text into a buffer of \<open>bufsize\<close>
  bytes, cut to \<open>bufsize - 1\<close> characters before the terminator. The argument is the text already
  formatted. \<open>fmt_s\<close> is what \<^verbatim>\<open>%s\<close> prints for a \<^verbatim>\<open>const char*\<close> (the C library of the
  ESP8266 prints \<^verbatim>\<open>(null)\<close> for a null pointer).
\<close>

definition SafeCString_sprintf :: "nat \<Rightarrow> string \<Rightarrow> string" where
  "SafeCString_sprintf bufsize formatted = take (bufsize - 1) formatted"

definition fmt_s :: "string option \<Rightarrow> string" where
  "fmt_s p = (case p of None \<Rightarrow> ''(null)'' | Some str \<Rightarrow> str)"

text \<open>
  \<^verbatim>\<open>bool mqttPublish(const char* topic, const char* value)\<close>: a null \<^verbatim>\<open>hostName\<close> returns
  \<^verbatim>\<open>false\<close> before anything is sent.
\<close>

definition mqttPublish :: "env \<Rightarrow> string \<Rightarrow> string option \<Rightarrow> device \<Rightarrow> bool \<times> device" where
  "mqttPublish env topic val s =
     (case hostName s of
        None \<Rightarrow> (False, emit (Serial HostNameNotSet) s)
      | Some h \<Rightarrow>
          (let buffer = SafeCString_sprintf 100 (''homie/'' @ h @ ''/'' @ topic);
               s1 = emit (Serial (Publishing val topic)) s;
               s2 = emit (Publish buffer val) s1
           in if \<not> publishR env (trace s2) then (False, emit (Serial PublishFailed) s2)
              else (True, emit (Serial PublishSucceeded) s2)))"

text \<open>\<^verbatim>\<open>bool mqttPublish(const char* topic, bool value)\<close>, the overload taking a \<^verbatim>\<open>bool\<close>.\<close>

definition mqttPublish_bool :: "env \<Rightarrow> string \<Rightarrow> bool \<Rightarrow> device \<Rightarrow> bool \<times> device" where
  "mqttPublish_bool env topic val s =
     mqttPublish env topic (Some (if val then trueString else falseString)) s"

subsection \<open>\<^verbatim>\<open>mqttAnnounce\<close>\<close>

text \<open>The value of \<^verbatim>\<open>$extensions\<close> is the empty string.\<close>

definition mqttAnnounce :: "env \<Rightarrow> device \<Rightarrow> bool \<times> device" where
  "mqttAnnounce env s =
     (let (ok, s1) = mqttPublish env ''$homie'' (Some ''4.0.0'') s in
      if \<not> ok then (False, emit (Serial CouldNotPublishMessage) s1)
      else
        (let s2 = snd (mqttPublish env ''$name'' (hostName s1) s1);
             s3 = snd (mqttPublish env ''$nodes'' (Some ''switch'') s2);
             s4 = snd (mqttPublish env ''$implementation'' (Some ''esp8266'') s3);
             s5 = snd (mqttPublish env ''$state'' (Some ''ready'') s4);
             s6 = snd (mqttPublish env ''$extensions'' (Some []) s5);
             s7 = snd (mqttPublish env ''switch/$name'' (Some ''Switch'') s6);
             s8 = snd (mqttPublish env ''switch/$type'' (Some ''1'') s7);
             s9 = snd (mqttPublish env ''switch/$properties'' (Some ''1'') s8);
             s10 = snd (mqttPublish env ''switch/1/$name'' (Some ''1'') s9);
             s11 = snd (mqttPublish env ''switch/1/$datatype'' (Some ''Boolean'') s10);
             s12 = snd (mqttPublish env ''switch/1/$settable'' (Some ''true'') s11)
         in (True, s12)))"

subsection \<open>\<^verbatim>\<open>mqttConnect\<close>\<close>

text \<open>
  The retry loop
  \<^verbatim>\<open>while (!mqttClient.connect(hostName, user, password) && --tries > 0) { printf(...); yield(); }\<close>.
  \<^verbatim>\<open>--tries\<close> is evaluated only when the connect failed.
\<close>

function connect_loop ::
  "env \<Rightarrow> string option \<Rightarrow> string option \<Rightarrow> string option \<Rightarrow> int \<Rightarrow> int \<Rightarrow> device \<Rightarrow> device" where
  "connect_loop env usr pwd brk prt tries s =
     (let s1 = emit (Connect (hostName s) usr pwd) s in
      if \<not> connectR env (trace s1) \<and> tries - 1 > 0 then
        (let s2 = emit State s1;
             s3 = emit (Serial (CouldNotConnect brk prt (stateR env (trace s2)))) s2;
             s4 = emit Yield s3
         in connect_loop env usr pwd brk prt (tries - 1) s4)
      else s1)"
  by pat_completeness auto
termination
  by (relation "measure (\<lambda>(env, usr, pwd, brk, prt, tries, s). nat tries)") auto

declare connect_loop.simps [simp del]

text \<open>
  \<^verbatim>\<open>mqttConnect\<close> after the check for the \<^verbatim>\<open>mqtt\<close> section. \<open>mqttConnect_session\<close> sets the
  client up and runs the retry loop (from \<^verbatim>\<open>auto mqttCfg = cfg["mqtt"]\<close> to the end of the
  \<^verbatim>\<open>while\<close>); \<open>mqttConnect_subscribe\<close> is the rest of the function after
  \<^verbatim>\<open>if (!mqttClient.connected()) return false;\<close>. The sketch holds the port in an \<^verbatim>\<open>int\<close> and
  \<^verbatim>\<open>setServer\<close> takes a \<^verbatim>\<open>uint16_t\<close>: the call passes the port reduced modulo \<open>2^16\<close>
  (\<open>as_uint16\<close>), while the log line prints the \<^verbatim>\<open>int\<close>.
\<close>

definition as_uint16 :: "int \<Rightarrow> int" where
  "as_uint16 x = x mod 65536"

definition mqttConnect_session :: "env \<Rightarrow> mqtt_section \<Rightarrow> device \<Rightarrow> device" where
  "mqttConnect_session env mqttCfg s =
     (let brk = broker mqttCfg;
          prt = (case port mqttCfg of Some p \<Rightarrow> p | None \<Rightarrow> 1883);
          s1 = emit (SetBufferSize 512) s;
          s2 = emit (SetServer brk (as_uint16 prt)) s1;
          s3 = emit SetCallback s2;
          usr = user mqttCfg;
          pwd = password mqttCfg
      in connect_loop env usr pwd brk prt 3 s3)"

definition mqttConnect_subscribe :: "env \<Rightarrow> device \<Rightarrow> bool \<times> device" where
  "mqttConnect_subscribe env s =
     (let buffer = SafeCString_sprintf 50 (''homie/'' @ fmt_s (hostName s) @ ''/switch/1/set'');
          s1 = emit (Subscribe buffer) s
      in if \<not> subscribeR env (trace s1)
         then (False, emit (Serial CouldNotSubscribe) s1)
         else (True, emit (Serial (SubscribedTo buffer)) s1))"

definition mqttConnect :: "env \<Rightarrow> device \<Rightarrow> bool \<times> device" where
  "mqttConnect env s =
     (case cfg_mqtt s of
        None \<Rightarrow> (False, s)
      | Some mqttCfg \<Rightarrow>
          (let s1 = mqttConnect_session env mqttCfg s;
               s2 = emit Connected s1
           in if \<not> connectedR env (trace s2) then (False, s2)
              else mqttConnect_subscribe env s2))"

subsection \<open>\<^verbatim>\<open>loop\<close>\<close>

text \<open>
  \<^verbatim>\<open>mqttClient.loop()\<close>: the client hands each inbound message to the callback registered
  with \<^verbatim>\<open>setCallback\<close> and then returns its result. \<^verbatim>\<open>loop\<close> runs only after \<^verbatim>\<open>mqttConnect\<close>
  has registered \<^verbatim>\<open>mqttCallback\<close>.
\<close>

definition mqttClient_loop ::
  "(string \<Rightarrow> string \<Rightarrow> nat \<Rightarrow> device \<Rightarrow> device) \<Rightarrow> env \<Rightarrow> device \<Rightarrow> bool \<times> device" where
  "mqttClient_loop callback env s =
     (let s1 = emit Loop s;
          (msgs, r) = loopR env (trace s1);
          s2 = fold (\<lambda>(topic, payload, len). callback topic payload len) msgs s1
      in (r, s2))"

text \<open>
  \<^verbatim>\<open>MainsSwitch.ino\<close>, \<^verbatim>\<open>loop\<close>. \<open>loop_publish\<close> is the statement \<^verbatim>\<open>if (relaySwitched) {...}\<close>,
  \<open>loop_reconnect\<close> the body of \<^verbatim>\<open>if (!mqttClient.loop()) {...}\<close>, \<open>loop_poll\<close> that
  \<^verbatim>\<open>if\<close> statement. The argument \<^verbatim>\<open>digitalRead(RelayPort)\<close> is an \<^verbatim>\<open>int\<close>, which selects the
  overload of \<^verbatim>\<open>mqttPublish\<close> taking a \<^verbatim>\<open>bool\<close>.
\<close>

definition loop_publish :: "env \<Rightarrow> device \<Rightarrow> device" where
  "loop_publish env s =
     (if relaySwitched s then
        (let (ok, s1) = mqttPublish_bool env ''switch/1'' (digitalRead RelayPort s) s
         in if ok then s1\<lparr>relaySwitched := False\<rparr> else s1)
      else s)"

definition loop_reconnect :: "env \<Rightarrow> device \<Rightarrow> device" where
  "loop_reconnect env s =
     (let s1 = emit (Serial Reconnecting) s;
          (r, s2) = mqttConnect env s1
      in s2\<lparr>mqttReady := r\<rparr>)"

definition loop_poll :: "env \<Rightarrow> device \<Rightarrow> device" where
  "loop_poll env s =
     (let (ok, s1) = mqttClient_loop mqttCallback env s
      in if \<not> ok then loop_reconnect env s1 else s1)"

definition loop :: "env \<Rightarrow> device \<Rightarrow> device" where
  "loop env s =
     (if mqttReady s then emit (Delay 250) (loop_poll env (loop_publish env s)) else s)"

text \<open>
  \<^verbatim>\<open>part_000\<close>, \<^verbatim>\<open>loop\<close>: the LED is switched off (driven high) once ready and on again on
  a lost session; the published value is \<^verbatim>\<open>!digitalRead(RelayPort)\<close>.
\<close>

definition loop_led_p0 :: "env \<Rightarrow> device \<Rightarrow> device" where
  "loop_led_p0 env s =
     (if digitalRead (LED_BUILTIN env) s = LOW then digitalWrite (LED_BUILTIN env) HIGH s else s)"

definition loop_publish_p0 :: "env \<Rightarrow> device \<Rightarrow> device" where
  "loop_publish_p0 env s =
     (if relaySwitched s then
        (let (ok, s1) = mqttPublish_bool env ''switch/1'' (\<not> digitalRead RelayPort_p0 s) s
         in if ok then s1\<lparr>relaySwitched := False\<rparr> else s1)
      else s)"

definition loop_reconnect_p0 :: "env \<Rightarrow> device \<Rightarrow> device" where
  "loop_reconnect_p0 env s =
     (let s0 = digitalWrite (LED_BUILTIN env) LOW s;
          s1 = emit (Serial Reconnecting) s0;
          (r, s2) = mqttConnect env s1
      in s2\<lparr>mqttReady := r\<rparr>)"

definition loop_poll_p0 :: "env \<Rightarrow> device \<Rightarrow> device" where
  "loop_poll_p0 env s =
     (let (ok, s1) = mqttClient_loop mqttCallback_p0 env s
      in if \<not> ok then loop_reconnect_p0 env s1 else s1)"

definition loop_p0 :: "env \<Rightarrow> device \<Rightarrow> device" where
  "loop_p0 env s =
     (if mqttReady s
      then emit (Delay 250) (loop_poll_p0 env (loop_publish_p0 env (loop_led_p0 env s)))
      else s)"

subsection \<open>\<^verbatim>\<open>getConfig\<close>: key and decoding\<close>

definition MaxConfigSize :: nat where
  "MaxConfigSize = 512"

definition MaxKeySize :: nat where
  "MaxKeySize = 4"

text \<open>
  The array \<^verbatim>\<open>chipId\<close> filled from \<^verbatim>\<open>ESP.getChipId()\<close> (a \<^verbatim>\<open>uint32_t\<close> that does not change
  between the three calls).
\<close>

definition getConfig_chipId :: "32 word \<Rightarrow> byte list" where
  "getConfig_chipId chip =
     (let c1 = (ucast (drop_bit 16 chip AND 0xff) :: byte);
          c2 = (ucast (drop_bit 8 chip AND 0xff) :: byte);
          c3 = (ucast (chip AND 0xff) :: byte);
          c0 = c1 XOR c2 XOR c3
      in [c0, c1, c2, c3])"

text \<open>
  The decoding loop. \<open>eeprom\<close> is \<^verbatim>\<open>EEPROM.read\<close>, \<open>config\<close> the buffer \<^verbatim>\<open>char config[512]\<close>
  (whatever it held before), and the result is the buffer with the final \<^verbatim>\<open>address\<close>.
\<close>

function getConfig_loop ::
  "(nat \<Rightarrow> byte) \<Rightarrow> byte list \<Rightarrow> bool \<Rightarrow> nat \<Rightarrow> byte list \<Rightarrow> byte list \<times> nat" where
  "getConfig_loop eeprom chipId isFinished address config =
     (if \<not> isFinished \<and> address < MaxConfigSize then
        (let val = eeprom address;
             config' = config[address := val XOR chipId ! (address mod MaxKeySize)]
         in getConfig_loop eeprom chipId (config' ! address = 0) (address + 1) config')
      else (config, address))"
  by pat_completeness auto
termination
  by (relation "measure (\<lambda>(eeprom, chipId, isFinished, address, config). MaxConfigSize - address)")
    auto

declare getConfig_loop.simps [simp del]

definition getConfig_decode :: "(nat \<Rightarrow> byte) \<Rightarrow> byte list \<Rightarrow> byte list \<Rightarrow> byte list \<times> nat" where
  "getConfig_decode eeprom chipId config = getConfig_loop eeprom chipId False 0 config"

text \<open>The text a C string function reads from a buffer: the bytes before the first zero.\<close>

definition c_str :: "byte list \<Rightarrow> byte list" where
  "c_str buffer = takeWhile (\<lambda>c. c \<noteq> 0) buffer"

text \<open>
  Modelled from the spec: the repository holds no encoder. The spec's \<^verbatim>\<open>encode(plaintext, key)\<close>
  is the counterpart of the decoding, byte \<open>i\<close> of the text combined by XOR with byte
  \<open>i mod 4\<close> of the key. \<open>stored\<close> is a storage that holds the given bytes from address 0 and
  anything (\<open>rest\<close>) behind them.
\<close>

definition spec_encode :: "byte list \<Rightarrow> byte list \<Rightarrow> byte list" where
  "spec_encode plaintext key =
     map (\<lambda>i. plaintext ! i XOR key ! (i mod 4)) [0..<length plaintext]"

definition stored :: "byte list \<Rightarrow> (nat \<Rightarrow> byte) \<Rightarrow> nat \<Rightarrow> byte" where
  "stored bytes rest address = (if address < length bytes then bytes ! address else rest address)"

text \<open>
  The last statement of \<^verbatim>\<open>setup\<close>, \<^verbatim>\<open>mqttReady = mqttConnect() && mqttAnnounce();\<close>
  (\<^verbatim>\<open>mqttAnnounce\<close> runs only when the connect succeeded).
\<close>

definition setup_mqttReady :: "env \<Rightarrow> device \<Rightarrow> device" where
  "setup_mqttReady env s =
     (let (connected, s1) = mqttConnect env s in
      if connected
      then (let (announced, s2) = mqttAnnounce env s1 in s2\<lparr>mqttReady := announced\<rparr>)
      else s1\<lparr>mqttReady := False\<rparr>)"

text \<open>The frame of the two callbacks, as one property of the device.\<close>

definition kept :: "device \<Rightarrow> device \<Rightarrow> bool" where
  "kept s x \<longleftrightarrow>
     hostName x = hostName s \<and> mqttReady x = mqttReady s \<and> cfg_mqtt x = cfg_mqtt s
     \<and> count_events isPublish x = count_events isPublish s
     \<and> prefix (trace s) (trace x)
     \<and> (relaySwitched s \<longrightarrow> relaySwitched x)"

subsection \<open>Sample inputs\<close>

text \<open>
  A device with every pin at \<open>level\<close>, a complete configuration and the given dirty flag;
  a client that gives the same answer to every call of a kind.
\<close>

definition sample_device :: "bool \<Rightarrow> bool \<Rightarrow> device" where
  "sample_device level dirty =
     \<lparr>pins = (\<lambda>pin. level),
      cfg_mqtt = Some \<lparr>broker = Some ''nas'', port = None,
                       user = Some ''switch'', password = Some ''secret''\<rparr>,
      hostName = Some ''relay'',
      relaySwitched = dirty,
      mqttReady = True,
      trace = []\<rparr>"

definition sample_env :: "bool \<Rightarrow> bool \<Rightarrow> bool \<Rightarrow> bool \<Rightarrow> env" where
  "sample_env connects publishes subscribes polls =
     \<lparr>connectR = (\<lambda>t. connects),
      connectedR = (\<lambda>t. connects),
      stateR = (\<lambda>t. - 2),
      publishR = (\<lambda>t. publishes),
      subscribeR = (\<lambda>t. subscribes),
      loopR = (\<lambda>t. ([], polls)),
      LED_BUILTIN = 2\<rparr>"

text \<open>A client that accepts the first publish call and refuses every later one.\<close>

definition probe_only_env :: env where
  "probe_only_env =
     (sample_env True True True True)\<lparr>publishR := (\<lambda>t. length (filter isPublish t) = 1)\<rparr>"

text \<open>
  A client whose first \<^verbatim>\<open>loop()\<close> delivers the command \<^verbatim>\<open>true\<close> and whose every call
  succeeds.
\<close>

definition command_env :: env where
  "command_env =
     (sample_env True True True True)\<lparr>loopR :=
        (\<lambda>t. if count_list t Loop = 1 then ([(''homie/relay/switch/1/set'', ''true'', 4)], True)
             else ([], True))\<rparr>"

text \<open>
  A client that refuses the first connect attempt and accepts the second, and a device whose
  configured port does not fit sixteen bits.
\<close>

definition second_attempt_env :: env where
  "second_attempt_env =
     (sample_env True True True True)\<lparr>connectR := (\<lambda>t. length (filter isConnect t) = 2)\<rparr>"

definition wide_port_device :: device where
  "wide_port_device =
     (sample_device False True)\<lparr>cfg_mqtt :=
        Some \<lparr>broker = Some ''nas'', port = Some 70000,
              user = Some ''switch'', password = Some ''secret''\<rparr>\<rparr>"

section \<open>Properties\<close>

subsection \<open>Exact matching of the payload\<close>

lemma equals_loop_iff:
  "equals_loop payload len expectation i \<longleftrightarrow>
     (\<forall>j. i \<le> j \<and> j < len \<longrightarrow> expectation ! j = payload ! j)"
proof (induction payload len expectation i rule: equals_loop.induct)
  case (1 payload len expectation i)
  show ?case
  proof (cases "i < len")
    case False
    then show ?thesis
      by (subst equals_loop.simps) auto
  next
    case True
    note lt = this
    show ?thesis
    proof (cases "expectation ! i = payload ! i")
      case False
      with lt show ?thesis
        by (subst equals_loop.simps) auto
    next
      case True
      have "(\<forall>j. i \<le> j \<and> j < len \<longrightarrow> expectation ! j = payload ! j) \<longleftrightarrow>
            (\<forall>j. i + 1 \<le> j \<and> j < len \<longrightarrow> expectation ! j = payload ! j)"
      proof (intro iffI allI impI)
        fix j
        assume "\<forall>j. i \<le> j \<and> j < len \<longrightarrow> expectation ! j = payload ! j"
          and "i + 1 \<le> j \<and> j < len"
        then show "expectation ! j = payload ! j" by simp
      next
        fix j
        assume h: "\<forall>j. i + 1 \<le> j \<and> j < len \<longrightarrow> expectation ! j = payload ! j"
          and c: "i \<le> j \<and> j < len"
        show "expectation ! j = payload ! j"
        proof (cases "j = i")
          case True
          with \<open>expectation ! i = payload ! i\<close> show ?thesis by simp
        next
          case False
          with c have "i + 1 \<le> j \<and> j < len" by simp
          with h show ?thesis by blast
        qed
      qed
      moreover have "equals_loop payload len expectation i =
                     equals_loop payload len expectation (i + 1)"
        using lt True by (subst equals_loop.simps) simp
      ultimately show ?thesis
        using lt True "1.IH" by simp
    qed
  qed
qed

lemma equals_iff_take:
  assumes "len \<le> length payload"
  shows "equals payload len expectation \<longleftrightarrow> take len payload = expectation"
proof (cases "len = length expectation")
  case False
  with assms show ?thesis by (auto simp: equals_def)
next
  case True
  have "equals payload len expectation \<longleftrightarrow> (\<forall>j < len. expectation ! j = payload ! j)"
    unfolding equals_def equals_loop_iff using True by simp
  also have "\<dots> \<longleftrightarrow> take len payload = expectation"
  proof
    assume h: "\<forall>j < len. expectation ! j = payload ! j"
    show "take len payload = expectation"
      by (rule nth_equalityI) (use assms True h in auto)
  next
    assume "take len payload = expectation"
    then show "\<forall>j < len. expectation ! j = payload ! j"
      by (metis nth_take)
  qed
  finally show ?thesis .
qed

lemma equals_trueString:
  "len \<le> length payload \<Longrightarrow> equals payload len trueString \<longleftrightarrow> take len payload = ''true''"
  by (simp add: equals_iff_take trueString_def)

lemma equals_falseString:
  "len \<le> length payload \<Longrightarrow> equals payload len falseString \<longleftrightarrow> take len payload = ''false''"
  by (simp add: equals_iff_take falseString_def)

lemma digitalWrite_eq:
  "digitalWrite pin level s =
     s\<lparr>pins := (pins s)(pin := level), trace := trace s @ [DigitalWrite pin level]\<rparr>"
  by (simp add: digitalWrite_def emit_def)

subsection \<open>The command handler\<close>

text \<open>
  C3. A payload (the first \<open>len\<close> bytes of the buffer) that is not byte for byte \<^verbatim>\<open>"true"\<close> or
  \<^verbatim>\<open>"false"\<close> changes nothing: in both sketches the device after the callback is the device
  before it, with the same pin levels, the same dirty flag and no call recorded, so no GPIO
  write.
\<close>

theorem unrecognised_payload_changes_nothing:
  assumes "len \<le> length payload"
    and "take len payload \<noteq> ''true''"
    and "take len payload \<noteq> ''false''"
  shows "mqttCallback topic payload len s = s \<and> mqttCallback_p0 topic payload len s = s"
  using assms
  by (simp add: mqttCallback_def mqttCallback_p0_def equals_trueString equals_falseString)

text \<open>
  The payloads \<^verbatim>\<open>"True"\<close>, \<^verbatim>\<open>"1"\<close>, \<^verbatim>\<open>"TRUE"\<close>, the cut \<^verbatim>\<open>"tru"\<close> and the longer \<^verbatim>\<open>"falsely"\<close>.
\<close>

theorem unrecognised_payload_changes_nothing_witness:
  "mqttCallback ''homie/relay/switch/1/set'' ''True'' 4 (sample_device False False)
     = sample_device False False
   \<and> mqttCallback_p0 ''homie/relay/switch/1/set'' ''True'' 4 (sample_device False False)
     = sample_device False False
   \<and> mqttCallback ''homie/relay/switch/1/set'' ''1'' 1 (sample_device False False)
     = sample_device False False
   \<and> mqttCallback ''homie/relay/switch/1/set'' ''TRUE'' 4 (sample_device False False)
     = sample_device False False
   \<and> mqttCallback ''homie/relay/switch/1/set'' ''true'' 3 (sample_device False False)
     = sample_device False False
   \<and> mqttCallback_p0 ''homie/relay/switch/1/set'' ''falsely'' 7 (sample_device False False)
     = sample_device False False"
  using unrecognised_payload_changes_nothing
          [of 4 "''True''" "''homie/relay/switch/1/set''" "sample_device False False"]
        unrecognised_payload_changes_nothing
          [of 1 "''1''" "''homie/relay/switch/1/set''" "sample_device False False"]
        unrecognised_payload_changes_nothing
          [of 4 "''TRUE''" "''homie/relay/switch/1/set''" "sample_device False False"]
        unrecognised_payload_changes_nothing
          [of 3 "''true''" "''homie/relay/switch/1/set''" "sample_device False False"]
        unrecognised_payload_changes_nothing
          [of 7 "''falsely''" "''homie/relay/switch/1/set''" "sample_device False False"]
  by simp

text \<open>
  C2, as amended. In \<^verbatim>\<open>MainsSwitch.ino\<close> (relay on when the port is high) the payload \<^verbatim>\<open>"true"\<close>
  on a low port drives the port high and sets the dirty flag, with exactly one GPIO write, and
  on a high port changes nothing; \<^verbatim>\<open>"false"\<close> on a high port drives it low and sets the dirty
  flag, and on a low port changes nothing. In \<^verbatim>\<open>part_000\<close> (relay on when the port is low) the
  levels are the other way round: \<^verbatim>\<open>"true"\<close> on a high port (relay off) drives the port low
  and sets the dirty flag, and on a low port changes nothing; \<^verbatim>\<open>"false"\<close> on a low port drives
  it high and sets the dirty flag, and on a high port changes nothing.
\<close>

theorem command_switches_relay:
  assumes "len \<le> length payload"
  shows "(take len payload = ''true'' \<longrightarrow>
            mqttCallback topic payload len s =
              (if \<not> pins s RelayPort
               then s\<lparr>pins := (pins s)(RelayPort := True), relaySwitched := True,
                      trace := trace s @ [DigitalWrite RelayPort True]\<rparr>
               else s))
       \<and> (take len payload = ''false'' \<longrightarrow>
            mqttCallback topic payload len s =
              (if pins s RelayPort
               then s\<lparr>pins := (pins s)(RelayPort := False), relaySwitched := True,
                      trace := trace s @ [DigitalWrite RelayPort False]\<rparr>
               else s))
       \<and> (take len payload = ''true'' \<longrightarrow>
            mqttCallback_p0 topic payload len s =
              (if pins s RelayPort_p0
               then s\<lparr>pins := (pins s)(RelayPort_p0 := False), relaySwitched := True,
                      trace := trace s @ [DigitalWrite RelayPort_p0 False]\<rparr>
               else s))
       \<and> (take len payload = ''false'' \<longrightarrow>
            mqttCallback_p0 topic payload len s =
              (if \<not> pins s RelayPort_p0
               then s\<lparr>pins := (pins s)(RelayPort_p0 := True), relaySwitched := True,
                      trace := trace s @ [DigitalWrite RelayPort_p0 True]\<rparr>
               else s))"
proof -
  have t: "take len payload = ''true'' \<Longrightarrow>
             equals payload len trueString \<and> \<not> equals payload len falseString"
    using assms by (simp add: equals_trueString equals_falseString)
  have f: "take len payload = ''false'' \<Longrightarrow>
             equals payload len falseString \<and> \<not> equals payload len trueString"
    using assms by (simp add: equals_trueString equals_falseString)
  show ?thesis
    using t f
    by (auto simp: mqttCallback_def mqttCallback_p0_def digitalWrite_eq digitalRead_def
                   HIGH_def LOW_def)
qed

theorem command_switches_relay_witness:
  "mqttCallback ''homie/relay/switch/1/set'' ''true'' 4 (sample_device False False) =
     (sample_device False False)\<lparr>pins := (pins (sample_device False False))(RelayPort := True),
        relaySwitched := True, trace := [DigitalWrite RelayPort True]\<rparr>
   \<and> mqttCallback ''homie/relay/switch/1/set'' ''true'' 4 (sample_device True False) =
       sample_device True False
   \<and> mqttCallback_p0 ''homie/relay/switch/1/set'' ''true'' 4 (sample_device True False) =
     (sample_device True False)\<lparr>pins := (pins (sample_device True False))(RelayPort_p0 := False),
        relaySwitched := True, trace := [DigitalWrite RelayPort_p0 False]\<rparr>
   \<and> mqttCallback_p0 ''homie/relay/switch/1/set'' ''false'' 5 (sample_device True False) =
       sample_device True False"
  using command_switches_relay
          [of 4 "''true''" "''homie/relay/switch/1/set''" "sample_device False False"]
        command_switches_relay
          [of 4 "''true''" "''homie/relay/switch/1/set''" "sample_device True False"]
        command_switches_relay
          [of 5 "''false''" "''homie/relay/switch/1/set''" "sample_device True False"]
  by (simp add: sample_device_def)

text \<open>
  C2 as stated fails in \<^verbatim>\<open>part_000\<close>: with the relay off (port high) the payload \<^verbatim>\<open>"true"\<close>
  leaves the port low, not high; and read with ``off'' as a low port, the payload \<^verbatim>\<open>"true"\<close>
  neither drives the port high nor sets the dirty flag.
\<close>

theorem command_sets_port_high_counterexample:
  "digitalRead RelayPort_p0
     (mqttCallback_p0 ''homie/relay/switch/1/set'' ''true'' 4 (sample_device True False)) \<noteq> HIGH
   \<and> digitalRead RelayPort_p0
     (mqttCallback_p0 ''homie/relay/switch/1/set'' ''true'' 4 (sample_device False False)) \<noteq> HIGH
   \<and> \<not> relaySwitched
     (mqttCallback_p0 ''homie/relay/switch/1/set'' ''true'' 4 (sample_device False False))"
  by (simp add: mqttCallback_p0_def equals_iff_take trueString_def falseString_def
                digitalWrite_eq digitalRead_def HIGH_def LOW_def sample_device_def RelayPort_p0_def)

subsection \<open>Publishing\<close>

lemma mqttPublish_None:
  "hostName s = None \<Longrightarrow>
     mqttPublish env topic val s = (False, s\<lparr>trace := trace s @ [Serial HostNameNotSet]\<rparr>)"
  by (simp add: mqttPublish_def emit_def)

lemma mqttPublish_Some:
  "hostName s = Some h \<Longrightarrow>
     mqttPublish env topic val s =
       (let t = trace s @ [Serial (Publishing val topic),
                           Publish (SafeCString_sprintf 100 (''homie/'' @ h @ ''/'' @ topic)) val];
            r = publishR env t
        in (r, s\<lparr>trace := t @ [Serial (if r then PublishSucceeded else PublishFailed)]\<rparr>))"
  by (simp add: mqttPublish_def emit_def Let_def)

text \<open>
  C10. With \<^verbatim>\<open>hostName\<close> still null, \<^verbatim>\<open>mqttPublish\<close> (both overloads) returns \<^verbatim>\<open>false\<close> for
  every topic and value, and the device is as before except for the line
  \<^verbatim>\<open>hostName not set\<close> on the serial log: no publish call is made on the client.
\<close>

theorem publish_without_host_name:
  assumes "hostName s = None"
  shows "mqttPublish env topic val s = (False, s\<lparr>trace := trace s @ [Serial HostNameNotSet]\<rparr>)
       \<and> mqttPublish_bool env topic b s = (False, s\<lparr>trace := trace s @ [Serial HostNameNotSet]\<rparr>)
       \<and> count_events isPublish (snd (mqttPublish env topic val s)) = count_events isPublish s"
  using assms by (simp add: mqttPublish_None mqttPublish_bool_def count_events_def)

theorem publish_without_host_name_witness:
  "hostName ((sample_device False True)\<lparr>hostName := None\<rparr>) = None
   \<and> mqttPublish (sample_env True True True True) ''switch/1'' (Some ''true'')
        ((sample_device False True)\<lparr>hostName := None\<rparr>)
      = (False, (sample_device False True)\<lparr>hostName := None, trace := [Serial HostNameNotSet]\<rparr>)"
  using publish_without_host_name
          [of "(sample_device False True)\<lparr>hostName := None\<rparr>" "sample_env True True True True"
              "''switch/1''" "Some ''true''" True]
  by (simp add: sample_device_def)

lemma mqttPublish_fields:
  "hostName (snd (mqttPublish env topic val s)) = hostName s"
  "pins (snd (mqttPublish env topic val s)) = pins s"
  "relaySwitched (snd (mqttPublish env topic val s)) = relaySwitched s"
  "mqttReady (snd (mqttPublish env topic val s)) = mqttReady s"
  "cfg_mqtt (snd (mqttPublish env topic val s)) = cfg_mqtt s"
  by (simp_all add: mqttPublish_def emit_def Let_def split: option.split)

lemma mqttPublish_count:
  "count_events isPublish (snd (mqttPublish env topic val s)) =
     (if hostName s = None then count_events isPublish s else Suc (count_events isPublish s))"
  by (simp add: mqttPublish_def emit_def Let_def count_events_def split: option.split)

lemma mqttPublish_True_host:
  "fst (mqttPublish env topic val s) \<Longrightarrow> hostName s \<noteq> None"
  by (auto simp: mqttPublish_def emit_def Let_def split: option.splits)

text \<open>
  C6. \<^verbatim>\<open>mqttAnnounce\<close> returns what its first publish (\<^verbatim>\<open>$homie\<close>) returns, whatever the
  later publishes return. When the first publish fails, the routine logs
  \<^verbatim>\<open>Could not publish message\<close> and stops: nothing happens after that publish, so at most one
  publish call was made. When it succeeds, all twelve publishes are attempted.
\<close>

theorem announce_probe:
  "fst (mqttAnnounce env s) = fst (mqttPublish env ''$homie'' (Some ''4.0.0'') s)
   \<and> (\<not> fst (mqttPublish env ''$homie'' (Some ''4.0.0'') s) \<longrightarrow>
        snd (mqttAnnounce env s) =
          emit (Serial CouldNotPublishMessage) (snd (mqttPublish env ''$homie'' (Some ''4.0.0'') s))
        \<and> count_events isPublish (snd (mqttAnnounce env s)) \<le> count_events isPublish s + 1)
   \<and> (fst (mqttPublish env ''$homie'' (Some ''4.0.0'') s) \<longrightarrow>
        count_events isPublish (snd (mqttAnnounce env s)) = count_events isPublish s + 12)"
proof (cases "fst (mqttPublish env ''$homie'' (Some ''4.0.0'') s)")
  case False
  have "count_events isPublish (emit (Serial CouldNotPublishMessage) s') = count_events isPublish s'"
    for s' by (simp add: count_events_def emit_def)
  with False show ?thesis
    by (simp add: mqttAnnounce_def split_beta mqttPublish_count)
next
  case True
  then have h: "hostName s \<noteq> None" by (rule mqttPublish_True_host)
  with True show ?thesis
    by (simp add: mqttAnnounce_def split_beta Let_def mqttPublish_count mqttPublish_fields)
qed


text \<open>
  A client that accepts the first publish only, and a client that refuses every publish.
\<close>

theorem announce_probe_witness:
  "fst (mqttPublish probe_only_env ''$homie'' (Some ''4.0.0'') (sample_device False True))
   \<and> \<not> fst (mqttPublish probe_only_env ''$name'' (Some ''relay'')
             (snd (mqttPublish probe_only_env ''$homie'' (Some ''4.0.0'') (sample_device False True))))
   \<and> fst (mqttAnnounce probe_only_env (sample_device False True))
   \<and> count_events isPublish (snd (mqttAnnounce probe_only_env (sample_device False True))) = 12
   \<and> \<not> fst (mqttPublish (sample_env True False True True) ''$homie'' (Some ''4.0.0'')
             (sample_device False True))
   \<and> mqttAnnounce (sample_env True False True True) (sample_device False True) =
       (False, (sample_device False True)\<lparr>trace :=
          [Serial (Publishing (Some ''4.0.0'') ''$homie''),
           Publish ''homie/relay/$homie'' (Some ''4.0.0''),
           Serial PublishFailed, Serial CouldNotPublishMessage]\<rparr>)"
  using announce_probe [of probe_only_env "sample_device False True"]
        announce_probe [of "sample_env True False True True" "sample_device False True"]
  by (simp add: mqttPublish_def probe_only_env_def sample_env_def sample_device_def emit_def
                SafeCString_sprintf_def count_events_def prod_eq_iff)

subsection \<open>Connecting\<close>

lemma connect_loop_1:
  "connect_loop env usr pwd brk prt 1 s = emit (Connect (hostName s) usr pwd) s"
  by (subst connect_loop.simps) (simp add: Let_def)

lemma connect_loop_2:
  "connect_loop env usr pwd brk prt 2 s =
     (let s1 = emit (Connect (hostName s) usr pwd) s in
      if \<not> connectR env (trace s1) then
        (let s2 = emit State s1;
             s3 = emit (Serial (CouldNotConnect brk prt (stateR env (trace s2)))) s2;
             s4 = emit Yield s3
         in emit (Connect (hostName s4) usr pwd) s4)
      else s1)"
  by (subst connect_loop.simps) (simp add: Let_def connect_loop_1)

lemma connect_loop_3:
  "connect_loop env usr pwd brk prt 3 s =
     (let s1 = emit (Connect (hostName s) usr pwd) s in
      if \<not> connectR env (trace s1) then
        (let s2 = emit State s1;
             s3 = emit (Serial (CouldNotConnect brk prt (stateR env (trace s2)))) s2;
             s4 = emit Yield s3
         in connect_loop env usr pwd brk prt 2 s4)
      else s1)"
  by (subst connect_loop.simps) (simp add: Let_def)

lemma emit_fields [simp]:
  "hostName (emit e s) = hostName s"
  "pins (emit e s) = pins s"
  "relaySwitched (emit e s) = relaySwitched s"
  "mqttReady (emit e s) = mqttReady s"
  "cfg_mqtt (emit e s) = cfg_mqtt s"
  "trace (emit e s) = trace s @ [e]"
  by (simp_all add: emit_def)

lemma count_events_emit [simp]:
  "count_events P (emit e s) = (if P e then Suc (count_events P s) else count_events P s)"
  by (simp add: count_events_def)

lemma connect_loop_fields:
  "hostName (connect_loop env usr pwd brk prt tries s) = hostName s"
  "pins (connect_loop env usr pwd brk prt tries s) = pins s"
  "relaySwitched (connect_loop env usr pwd brk prt tries s) = relaySwitched s"
  "mqttReady (connect_loop env usr pwd brk prt tries s) = mqttReady s"
  "cfg_mqtt (connect_loop env usr pwd brk prt tries s) = cfg_mqtt s"
  "count_events isPublish (connect_loop env usr pwd brk prt tries s) = count_events isPublish s"
  "count_events isDigitalWrite (connect_loop env usr pwd brk prt tries s) =
     count_events isDigitalWrite s"
proof (induction env usr pwd brk prt tries s rule: connect_loop.induct)
  case (1 env usr pwd brk prt tries s)
  {
    case 1
    show ?case using "1.IH"(1) by (subst connect_loop.simps) (simp add: Let_def)
  next
    case 2
    show ?case using "1.IH"(2) by (subst connect_loop.simps) (simp add: Let_def)
  next
    case 3
    show ?case using "1.IH"(3) by (subst connect_loop.simps) (simp add: Let_def)
  next
    case 4
    show ?case using "1.IH"(4) by (subst connect_loop.simps) (simp add: Let_def)
  next
    case 5
    show ?case using "1.IH"(5) by (subst connect_loop.simps) (simp add: Let_def)
  next
    case 6
    show ?case using "1.IH"(6) by (subst connect_loop.simps) (simp add: Let_def)
  next
    case 7
    show ?case using "1.IH"(7) by (subst connect_loop.simps) (simp add: Let_def)
  }
qed


lemma mqttConnect_session_eq:
  "mqttConnect_session env m s =
     connect_loop env (user m) (password m) (broker m)
       (case port m of Some p \<Rightarrow> p | None \<Rightarrow> 1883) 3
       (s\<lparr>trace := trace s @ [SetBufferSize 512,
             SetServer (broker m) (as_uint16 (case port m of Some p \<Rightarrow> p | None \<Rightarrow> 1883)),
             SetCallback]\<rparr>)"
  by (simp add: mqttConnect_session_def Let_def emit_def)

lemma connect_loop_counts:
  "count_events isConnect s < count_events isConnect (connect_loop env usr pwd brk prt 3 s)
   \<and> count_events isConnect (connect_loop env usr pwd brk prt 3 s) \<le> count_events isConnect s + 3
   \<and> count_events isYield (connect_loop env usr pwd brk prt 3 s) + count_events isConnect s + 1
       = count_events isYield s + count_events isConnect (connect_loop env usr pwd brk prt 3 s)"
  by (simp add: connect_loop_3 connect_loop_2 Let_def)

text \<open>The retry loop unrolled: the calls made, for every answer of the client.\<close>

lemma mqttConnect_session_trace:
  "mqttConnect_session env m s =
     (let prt = (case port m of Some p \<Rightarrow> p | None \<Rightarrow> 1883);
          c = Connect (hostName s) (user m) (password m);
          t1 = trace s @ [SetBufferSize 512, SetServer (broker m) (as_uint16 prt), SetCallback, c];
          t2 = t1 @ [State, Serial (CouldNotConnect (broker m) prt (stateR env (t1 @ [State]))),
                     Yield, c];
          t3 = t2 @ [State, Serial (CouldNotConnect (broker m) prt (stateR env (t2 @ [State]))),
                     Yield, c]
      in s\<lparr>trace := (if connectR env t1 then t1 else if connectR env t2 then t2 else t3)\<rparr>)"
  by (simp add: mqttConnect_session_eq connect_loop_3 connect_loop_2 Let_def emit_def)

text \<open>
  C4, as amended. Without the \<^verbatim>\<open>mqtt\<close> section \<^verbatim>\<open>mqttConnect\<close> returns \<^verbatim>\<open>false\<close> and the
  device is unchanged: no call at all, so no connection attempt. With the section, for every
  client, the calls made are fixed by the client's answers: after the set-up the routine
  makes a connect call; when it fails, the state query, the log line and a \<^verbatim>\<open>yield\<close> follow and
  a second connect call is made; when that fails too, the same three calls follow and a third
  connect call is made; a connect that succeeds ends the attempts, and after the third there
  is neither a \<^verbatim>\<open>yield\<close> nor a fourth attempt, whatever its result. So there are one, two or
  three attempts, three exactly when the first two fail. Then the client is asked whether it
  is connected: when it is not, the result is \<^verbatim>\<open>false\<close> (so three failed attempts give
  \<^verbatim>\<open>false\<close>, the client reporting no connection after them); when it is, the routine
  subscribes, and the result is that of the subscribe.
\<close>

theorem connect_bounded_retry:
  "(cfg_mqtt s = None \<longrightarrow> mqttConnect env s = (False, s))
   \<and> (cfg_mqtt s = Some m \<longrightarrow>
        (let prt = (case port m of Some p \<Rightarrow> p | None \<Rightarrow> 1883);
             c = Connect (hostName s) (user m) (password m);
             t1 = trace s @ [SetBufferSize 512, SetServer (broker m) (as_uint16 prt), SetCallback, c];
             t2 = t1 @ [State, Serial (CouldNotConnect (broker m) prt (stateR env (t1 @ [State]))),
                        Yield, c];
             t3 = t2 @ [State, Serial (CouldNotConnect (broker m) prt (stateR env (t2 @ [State]))),
                        Yield, c];
             tc = (if connectR env t1 then t1 else if connectR env t2 then t2 else t3);
             topic = SafeCString_sprintf 50 (''homie/'' @ fmt_s (hostName s) @ ''/switch/1/set'');
             ts = tc @ [Connected, Subscribe topic]
         in mqttConnect_session env m s = s\<lparr>trace := tc\<rparr>
            \<and> mqttConnect env s =
                 (if \<not> connectedR env (tc @ [Connected])
                  then (False, s\<lparr>trace := tc @ [Connected]\<rparr>)
                  else if \<not> subscribeR env ts
                  then (False, s\<lparr>trace := ts @ [Serial CouldNotSubscribe]\<rparr>)
                  else (True, s\<lparr>trace := ts @ [Serial (SubscribedTo topic)]\<rparr>))))
   \<and> (cfg_mqtt s \<noteq> None \<longrightarrow>
        count_events isConnect s < count_events isConnect (snd (mqttConnect env s))
        \<and> count_events isConnect (snd (mqttConnect env s)) \<le> count_events isConnect s + 3
        \<and> count_events isYield (snd (mqttConnect env s)) + count_events isConnect s + 1
            = count_events isYield s + count_events isConnect (snd (mqttConnect env s)))"
proof (intro conjI impI)
  show "mqttConnect env s = (False, s)" if "cfg_mqtt s = None"
    using that by (simp add: mqttConnect_def)
next
  assume cfg: "cfg_mqtt s = Some m"
  define prt where "prt = (case port m of Some p \<Rightarrow> p | None \<Rightarrow> 1883)"
  define c where "c = Connect (hostName s) (user m) (password m)"
  define t1 where
    "t1 = trace s @ [SetBufferSize 512, SetServer (broker m) (as_uint16 prt), SetCallback, c]"
  define t2 where
    "t2 = t1 @ [State, Serial (CouldNotConnect (broker m) prt (stateR env (t1 @ [State]))), Yield, c]"
  define t3 where
    "t3 = t2 @ [State, Serial (CouldNotConnect (broker m) prt (stateR env (t2 @ [State]))), Yield, c]"
  define tc where "tc = (if connectR env t1 then t1 else if connectR env t2 then t2 else t3)"
  define topic where
    "topic = SafeCString_sprintf 50 (''homie/'' @ fmt_s (hostName s) @ ''/switch/1/set'')"
  define ts where "ts = tc @ [Connected, Subscribe topic]"
  have sess: "mqttConnect_session env m s = s\<lparr>trace := tc\<rparr>"
    using mqttConnect_session_trace [of env m s]
    by (simp add: Let_def tc_def t3_def t2_def t1_def c_def prt_def)
  have conn: "mqttConnect env s =
                 (if \<not> connectedR env (tc @ [Connected])
                  then (False, s\<lparr>trace := tc @ [Connected]\<rparr>)
                  else if \<not> subscribeR env ts
                  then (False, s\<lparr>trace := ts @ [Serial CouldNotSubscribe]\<rparr>)
                  else (True, s\<lparr>trace := ts @ [Serial (SubscribedTo topic)]\<rparr>))"
    by (simp add: mqttConnect_def cfg sess mqttConnect_subscribe_def Let_def emit_def
                  ts_def topic_def)
  from sess conn
  show "let prt = (case port m of Some p \<Rightarrow> p | None \<Rightarrow> 1883);
             c = Connect (hostName s) (user m) (password m);
             t1 = trace s @ [SetBufferSize 512, SetServer (broker m) (as_uint16 prt), SetCallback, c];
             t2 = t1 @ [State, Serial (CouldNotConnect (broker m) prt (stateR env (t1 @ [State]))),
                        Yield, c];
             t3 = t2 @ [State, Serial (CouldNotConnect (broker m) prt (stateR env (t2 @ [State]))),
                        Yield, c];
             tc = (if connectR env t1 then t1 else if connectR env t2 then t2 else t3);
             topic = SafeCString_sprintf 50 (''homie/'' @ fmt_s (hostName s) @ ''/switch/1/set'');
             ts = tc @ [Connected, Subscribe topic]
         in mqttConnect_session env m s = s\<lparr>trace := tc\<rparr>
            \<and> mqttConnect env s =
                 (if \<not> connectedR env (tc @ [Connected])
                  then (False, s\<lparr>trace := tc @ [Connected]\<rparr>)
                  else if \<not> subscribeR env ts
                  then (False, s\<lparr>trace := ts @ [Serial CouldNotSubscribe]\<rparr>)
                  else (True, s\<lparr>trace := ts @ [Serial (SubscribedTo topic)]\<rparr>))"
    unfolding Let_def ts_def topic_def tc_def t3_def t2_def t1_def c_def prt_def by blast
next
  assume "cfg_mqtt s \<noteq> None"
  then obtain m' where m': "cfg_mqtt s = Some m'" by auto
  define s3 where "s3 = emit SetCallback (emit (SetServer (broker m')
      (as_uint16 (case port m' of Some p \<Rightarrow> p | None \<Rightarrow> 1883))) (emit (SetBufferSize 512) s))"
  define s4 where "s4 = connect_loop env (user m') (password m') (broker m')
      (case port m' of Some p \<Rightarrow> p | None \<Rightarrow> 1883) 3 s3"
  have s3: "count_events isConnect s3 = count_events isConnect s"
           "count_events isYield s3 = count_events isYield s"
    by (simp_all add: s3_def)
  have sess: "mqttConnect_session env m' s = s4"
    by (simp add: mqttConnect_session_def Let_def s4_def s3_def)
  have fin: "count_events isConnect (snd (mqttConnect env s)) = count_events isConnect s4"
            "count_events isYield (snd (mqttConnect env s)) = count_events isYield s4"
    by (simp_all add: mqttConnect_def m' sess Let_def mqttConnect_subscribe_def)
  from connect_loop_counts [of s3 env "user m'" "password m'" "broker m'"
      "case port m' of Some p \<Rightarrow> p | None \<Rightarrow> 1883"]
  have counts: "count_events isConnect s < count_events isConnect (snd (mqttConnect env s))
      \<and> count_events isConnect (snd (mqttConnect env s)) \<le> count_events isConnect s + 3
      \<and> count_events isYield (snd (mqttConnect env s)) + count_events isConnect s + 1
          = count_events isYield s + count_events isConnect (snd (mqttConnect env s))"
    unfolding fin s4_def [symmetric] s3 by simp
  show "count_events isConnect s < count_events isConnect (snd (mqttConnect env s))"
    using counts by blast
  show "count_events isConnect (snd (mqttConnect env s)) \<le> count_events isConnect s + 3"
    using counts by blast
  show "count_events isYield (snd (mqttConnect env s)) + count_events isConnect s + 1
          = count_events isYield s + count_events isConnect (snd (mqttConnect env s))"
    using counts by blast
qed

text \<open>
  No \<^verbatim>\<open>mqtt\<close> section; three failed attempts; a first attempt that succeeds; a second attempt
  that succeeds, with a port of 70000 that reaches the client as 4464.
\<close>

theorem connect_bounded_retry_witness:
  "mqttConnect (sample_env True True True True) ((sample_device False True)\<lparr>cfg_mqtt := None\<rparr>)
     = (False, (sample_device False True)\<lparr>cfg_mqtt := None\<rparr>)
   \<and> mqttConnect (sample_env False True True True) (sample_device False True) =
      (False, (sample_device False True)\<lparr>trace :=
         [SetBufferSize 512, SetServer (Some ''nas'') 1883, SetCallback,
          Connect (Some ''relay'') (Some ''switch'') (Some ''secret''),
          State, Serial (CouldNotConnect (Some ''nas'') 1883 (- 2)), Yield,
          Connect (Some ''relay'') (Some ''switch'') (Some ''secret''),
          State, Serial (CouldNotConnect (Some ''nas'') 1883 (- 2)), Yield,
          Connect (Some ''relay'') (Some ''switch'') (Some ''secret''),
          Connected]\<rparr>)
   \<and> mqttConnect (sample_env True True True True) (sample_device False True) =
      (True, (sample_device False True)\<lparr>trace :=
         [SetBufferSize 512, SetServer (Some ''nas'') 1883, SetCallback,
          Connect (Some ''relay'') (Some ''switch'') (Some ''secret''),
          Connected, Subscribe ''homie/relay/switch/1/set'',
          Serial (SubscribedTo ''homie/relay/switch/1/set'')]\<rparr>)
   \<and> mqttConnect second_attempt_env wide_port_device =
      (True, wide_port_device\<lparr>trace :=
         [SetBufferSize 512, SetServer (Some ''nas'') 4464, SetCallback,
          Connect (Some ''relay'') (Some ''switch'') (Some ''secret''),
          State, Serial (CouldNotConnect (Some ''nas'') 70000 (- 2)), Yield,
          Connect (Some ''relay'') (Some ''switch'') (Some ''secret''),
          Connected, Subscribe ''homie/relay/switch/1/set'',
          Serial (SubscribedTo ''homie/relay/switch/1/set'')]\<rparr>)"
  using connect_bounded_retry
          [of "(sample_device False True)\<lparr>cfg_mqtt := None\<rparr>" "sample_env True True True True"]
        connect_bounded_retry
          [of "sample_device False True" "sample_env False True True True"
              "\<lparr>broker = Some ''nas'', port = None,
                user = Some ''switch'', password = Some ''secret''\<rparr>"]
        connect_bounded_retry
          [of "sample_device False True" "sample_env True True True True"
              "\<lparr>broker = Some ''nas'', port = None,
                user = Some ''switch'', password = Some ''secret''\<rparr>"]
        connect_bounded_retry
          [of wide_port_device second_attempt_env
              "\<lparr>broker = Some ''nas'', port = Some 70000,
                user = Some ''switch'', password = Some ''secret''\<rparr>"]
  by (simp add: sample_device_def sample_env_def second_attempt_env_def wide_port_device_def
                Let_def as_uint16_def SafeCString_sprintf_def fmt_s_def)

text \<open>
  C4 as stated fails: with the \<^verbatim>\<open>mqtt\<close> section present and a first attempt that succeeds,
  \<^verbatim>\<open>mqttConnect\<close> makes one connect call, not three.
\<close>

theorem connect_three_attempts_counterexample:
  "connectR (sample_env True True True True)
     [SetBufferSize 512, SetServer (Some ''nas'') 1883, SetCallback,
      Connect (Some ''relay'') (Some ''switch'') (Some ''secret'')]
   \<and> trace (snd (mqttConnect (sample_env True True True True) (sample_device False True))) =
     [SetBufferSize 512, SetServer (Some ''nas'') 1883, SetCallback,
      Connect (Some ''relay'') (Some ''switch'') (Some ''secret''),
      Connected, Subscribe ''homie/relay/switch/1/set'',
      Serial (SubscribedTo ''homie/relay/switch/1/set'')]
   \<and> count_events isConnect
        (snd (mqttConnect (sample_env True True True True) (sample_device False True))) \<noteq> 3"
  by (simp add: mqttConnect_def mqttConnect_subscribe_def mqttConnect_session_eq as_uint16_def
                connect_loop_3 Let_def emit_def sample_device_def sample_env_def
                SafeCString_sprintf_def fmt_s_def count_events_def)

text \<open>
  C5, as amended. When the session is up (\<^verbatim>\<open>connected()\<close> is true after the retry loop) and
  the subscribe to \<^verbatim>\<open>homie/<host>/switch/1/set\<close> fails, \<^verbatim>\<open>mqttConnect\<close> logs
  \<^verbatim>\<open>Could not subscribe\<close>, makes no further call on the client (the connection is not
  rolled back) and returns \<^verbatim>\<open>false\<close>.
\<close>

theorem subscribe_failure_fails_connect:
  assumes "cfg_mqtt s = Some m"
    and "connectedR env (trace (mqttConnect_session env m s) @ [Connected])"
    and "\<not> subscribeR env (trace (mqttConnect_session env m s) @
            [Connected,
             Subscribe (SafeCString_sprintf 50 (''homie/'' @ fmt_s (hostName s) @ ''/switch/1/set''))])"
  shows "mqttConnect env s =
           (False, (mqttConnect_session env m s)\<lparr>trace := trace (mqttConnect_session env m s) @
              [Connected,
               Subscribe (SafeCString_sprintf 50 (''homie/'' @ fmt_s (hostName s) @ ''/switch/1/set'')),
               Serial CouldNotSubscribe]\<rparr>)"
proof -
  have h: "hostName (mqttConnect_session env m s) = hostName s"
    by (simp add: mqttConnect_session_eq connect_loop_fields)
  show ?thesis
    using assms by (simp add: mqttConnect_def mqttConnect_subscribe_def Let_def h emit_def)
qed

theorem subscribe_failure_fails_connect_witness:
  "mqttConnect (sample_env True True False True) (sample_device False True) =
     (False, (sample_device False True)\<lparr>trace :=
        [SetBufferSize 512, SetServer (Some ''nas'') 1883, SetCallback,
         Connect (Some ''relay'') (Some ''switch'') (Some ''secret''),
         Connected, Subscribe ''homie/relay/switch/1/set'', Serial CouldNotSubscribe]\<rparr>)"
  using subscribe_failure_fails_connect
          [of "sample_device False True"
              "\<lparr>broker = Some ''nas'', port = None,
                user = Some ''switch'', password = Some ''secret''\<rparr>"
              "sample_env True True False True"]
  by (simp add: sample_device_def sample_env_def mqttConnect_session_eq as_uint16_def connect_loop_3 Let_def
                emit_def SafeCString_sprintf_def fmt_s_def)

text \<open>
  C5 as stated fails: the connect succeeds at the first attempt, the subscribe fails, and
  \<^verbatim>\<open>mqttConnect\<close> does not report success.
\<close>

theorem subscribe_failure_reports_success_counterexample:
  "connectR (sample_env True True False True)
     [SetBufferSize 512, SetServer (Some ''nas'') 1883, SetCallback,
      Connect (Some ''relay'') (Some ''switch'') (Some ''secret'')]
   \<and> \<not> subscribeR (sample_env True True False True)
     [SetBufferSize 512, SetServer (Some ''nas'') 1883, SetCallback,
      Connect (Some ''relay'') (Some ''switch'') (Some ''secret''),
      Connected, Subscribe ''homie/relay/switch/1/set'']
   \<and> trace (snd (mqttConnect (sample_env True True False True) (sample_device False True))) =
     [SetBufferSize 512, SetServer (Some ''nas'') 1883, SetCallback,
      Connect (Some ''relay'') (Some ''switch'') (Some ''secret''),
      Connected, Subscribe ''homie/relay/switch/1/set'', Serial CouldNotSubscribe]
   \<and> fst (mqttConnect (sample_env True True False True) (sample_device False True)) \<noteq> True"
  by (simp add: mqttConnect_def mqttConnect_subscribe_def mqttConnect_session_eq as_uint16_def connect_loop_3
                Let_def emit_def sample_device_def sample_env_def SafeCString_sprintf_def fmt_s_def)

subsection \<open>The configuration store\<close>

lemma and_255_take_bit: "(w :: 32 word) AND 0xff = take_bit 8 w"
  by (simp add: take_bit_eq_mask mask_eq_exp_minus_1)

lemma unat_low_byte: "unat (ucast (w AND 0xff :: 32 word) :: byte) = unat w mod 256"
  unfolding and_255_take_bit
  by (simp add: unsigned_ucast_eq unsigned_take_bit_eq take_bit_eq_mod unat_mod)

text \<open>
  C8. For every chip identifier the key has four bytes, byte 0 is the XOR of bytes 1, 2 and 3,
  and bytes 3, 2 and 1 are the identifier's three low-order bytes (bits 0-7, 8-15 and 16-23).
  The key is a function of the identifier alone.
\<close>

theorem chip_key_checksum:
  "length (getConfig_chipId chip) = 4
   \<and> getConfig_chipId chip ! 0 =
       getConfig_chipId chip ! 1 XOR getConfig_chipId chip ! 2 XOR getConfig_chipId chip ! 3
   \<and> unat (getConfig_chipId chip ! 3) = unat chip mod 256
   \<and> unat (getConfig_chipId chip ! 2) = unat chip div 256 mod 256
   \<and> unat (getConfig_chipId chip ! 1) = unat chip div 65536 mod 256"
  by (simp add: getConfig_chipId_def Let_def unat_low_byte drop_bit_eq_div unat_div)

lemma getConfig_loop_stop:
  "isFinished \<or> \<not> address < MaxConfigSize \<Longrightarrow>
     getConfig_loop eeprom chipId isFinished address config = (config, address)"
  by (subst getConfig_loop.simps) auto

lemma getConfig_loop_step:
  "\<not> isFinished \<Longrightarrow> address < MaxConfigSize \<Longrightarrow>
     getConfig_loop eeprom chipId isFinished address config =
       getConfig_loop eeprom chipId
         (config[address := eeprom address XOR chipId ! (address mod MaxKeySize)] ! address = 0)
         (address + 1)
         (config[address := eeprom address XOR chipId ! (address mod MaxKeySize)])"
  by (subst getConfig_loop.simps) (simp add: Let_def)

text \<open>What the loop leaves behind, from any point of its run.\<close>

lemma getConfig_loop_inv:
  assumes "length config = MaxConfigSize" and "address \<le> MaxConfigSize"
    and "getConfig_loop eeprom chipId isFinished address config = (config', n)"
  shows "address \<le> n \<and> n \<le> MaxConfigSize \<and> length config' = MaxConfigSize
       \<and> (\<forall>i. i < address \<or> n \<le> i \<longrightarrow> config' ! i = config ! i)
       \<and> (\<forall>i. address \<le> i \<and> i < n \<longrightarrow> config' ! i = eeprom i XOR chipId ! (i mod MaxKeySize))
       \<and> (\<forall>i. address \<le> i \<and> i + 1 < n \<longrightarrow> config' ! i \<noteq> 0)
       \<and> (\<not> isFinished \<and> address < MaxConfigSize \<longrightarrow> address < n)
       \<and> (address < n \<and> n < MaxConfigSize \<longrightarrow> config' ! (n - 1) = 0)"
  using assms
proof (induction eeprom chipId isFinished address config rule: getConfig_loop.induct)
  case (1 eeprom chipId isFinished address config)
  show ?case
  proof (cases "\<not> isFinished \<and> address < MaxConfigSize")
    case False
    then have "getConfig_loop eeprom chipId isFinished address config = (config, address)"
      by (intro getConfig_loop_stop) auto
    with "1.prems" False show ?thesis by auto
  next
    case True
    define c where "c = eeprom address XOR chipId ! (address mod MaxKeySize)"
    define cfg1 where "cfg1 = config[address := c]"
    have len1: "length cfg1 = MaxConfigSize" using "1.prems"(1) by (simp add: cfg1_def)
    have at: "cfg1 ! address = c" using True "1.prems"(1) by (simp add: cfg1_def)
    have step: "getConfig_loop eeprom chipId (cfg1 ! address = 0) (address + 1) cfg1 = (config', n)"
      using True "1.prems"(3) by (simp add: getConfig_loop_step cfg1_def c_def)
    have le1: "address + 1 \<le> MaxConfigSize" using True by simp
    have IH: "address + 1 \<le> n \<and> n \<le> MaxConfigSize \<and> length config' = MaxConfigSize
       \<and> (\<forall>i. i < address + 1 \<or> n \<le> i \<longrightarrow> config' ! i = cfg1 ! i)
       \<and> (\<forall>i. address + 1 \<le> i \<and> i < n \<longrightarrow> config' ! i = eeprom i XOR chipId ! (i mod MaxKeySize))
       \<and> (\<forall>i. address + 1 \<le> i \<and> i + 1 < n \<longrightarrow> config' ! i \<noteq> 0)
       \<and> (\<not> (cfg1 ! address = 0) \<and> address + 1 < MaxConfigSize \<longrightarrow> address + 1 < n)
       \<and> (address + 1 < n \<and> n < MaxConfigSize \<longrightarrow> config' ! (n - 1) = 0)"
      unfolding cfg1_def c_def
      apply (rule "1.IH" [OF True refl refl])
        apply (rule len1 [unfolded cfg1_def c_def])
       apply (rule le1)
      apply (rule step [unfolded cfg1_def c_def])
      done
    from IH have bnd: "address + 1 \<le> n" "n \<le> MaxConfigSize" "length config' = MaxConfigSize"
      by blast+
    from IH have IHu: "\<And>i. i < address + 1 \<or> n \<le> i \<Longrightarrow> config' ! i = cfg1 ! i"
      by blast
    from IH have IHd:
      "\<And>i. address + 1 \<le> i \<Longrightarrow> i < n \<Longrightarrow> config' ! i = eeprom i XOR chipId ! (i mod MaxKeySize)"
      by blast
    from IH have IHn: "\<And>i. address + 1 \<le> i \<Longrightarrow> i + 1 < n \<Longrightarrow> config' ! i \<noteq> 0"
      by blast
    from IH have IHl: "address + 1 < n \<Longrightarrow> n < MaxConfigSize \<Longrightarrow> config' ! (n - 1) = 0"
      by blast
    have here: "config' ! address = c"
      using IHu [of address] at by simp
    have untouched: "\<forall>i. i < address \<or> n \<le> i \<longrightarrow> config' ! i = config ! i"
    proof (intro allI impI)
      fix i assume a: "i < address \<or> n \<le> i"
      with bnd have ne: "i \<noteq> address" by auto
      from a have "config' ! i = cfg1 ! i" by (intro IHu) auto
      also have "cfg1 ! i = config ! i" using ne by (simp add: cfg1_def)
      finally show "config' ! i = config ! i" .
    qed
    have decoded:
      "\<forall>i. address \<le> i \<and> i < n \<longrightarrow> config' ! i = eeprom i XOR chipId ! (i mod MaxKeySize)"
    proof (intro allI impI)
      fix i assume a: "address \<le> i \<and> i < n"
      show "config' ! i = eeprom i XOR chipId ! (i mod MaxKeySize)"
      proof (cases "i = address")
        case True
        then show ?thesis using here by (simp add: c_def)
      next
        case False
        with a show ?thesis by (intro IHd) auto
      qed
    qed
    have stop_at_zero: "n = address + 1" if "c = 0"
    proof -
      have "getConfig_loop eeprom chipId (cfg1 ! address = 0) (address + 1) cfg1
              = (cfg1, address + 1)"
        using at that by (intro getConfig_loop_stop) simp
      with step show ?thesis by simp
    qed
    have nonzero: "\<forall>i. address \<le> i \<and> i + 1 < n \<longrightarrow> config' ! i \<noteq> 0"
    proof (intro allI impI)
      fix i assume a: "address \<le> i \<and> i + 1 < n"
      show "config' ! i \<noteq> 0"
      proof (cases "i = address")
        case True
        with a stop_at_zero have "c \<noteq> 0" by auto
        with True here show ?thesis by simp
      next
        case False
        with a show ?thesis by (intro IHn) auto
      qed
    qed
    have last: "address < n \<and> n < MaxConfigSize \<longrightarrow> config' ! (n - 1) = 0"
    proof
      assume a: "address < n \<and> n < MaxConfigSize"
      show "config' ! (n - 1) = 0"
      proof (cases "n = address + 1")
        case True
        have "c = 0"
        proof (rule ccontr)
          assume "c \<noteq> 0"
          with at a True have "\<not> (cfg1 ! address = 0) \<and> address + 1 < MaxConfigSize" by simp
          with IH have "address + 1 < n" by blast
          with True show False by simp
        qed
        with True here show ?thesis by simp
      next
        case False
        with a bnd show ?thesis by (intro IHl) auto
      qed
    qed
    have progress: "\<not> isFinished \<and> address < MaxConfigSize \<longrightarrow> address < n"
      using bnd by simp
    from bnd untouched decoded nonzero last progress show ?thesis
      by (intro conjI) simp_all
  qed
qed


lemma decode_encoded_byte:
  assumes "i < length bytes"
  shows "stored (spec_encode bytes key) rest i XOR key ! (i mod MaxKeySize) = bytes ! i"
proof -
  have "stored (spec_encode bytes key) rest i = bytes ! i XOR key ! (i mod 4)"
    using assms by (simp add: stored_def spec_encode_def)
  then show ?thesis
    by (simp add: MaxKeySize_def xor.assoc)
qed

lemma getConfig_decode_inv:
  assumes "length config = MaxConfigSize"
    and r: "getConfig_decode eeprom chipId config = (config', n)"
  shows "0 < n \<and> n \<le> MaxConfigSize \<and> length config' = MaxConfigSize
         \<and> (\<forall>i. i < n \<longrightarrow> config' ! i = eeprom i XOR chipId ! (i mod MaxKeySize))
         \<and> (\<forall>i. i + 1 < n \<longrightarrow> config' ! i \<noteq> 0)
         \<and> (n < MaxConfigSize \<longrightarrow> config' ! (n - 1) = 0)
         \<and> (\<forall>i. n \<le> i \<longrightarrow> config' ! i = config ! i)"
proof -
  have pos: "0 < MaxConfigSize" by (simp add: MaxConfigSize_def)
  moreover have "getConfig_loop eeprom chipId False 0 config = (config', n)"
    using r by (simp add: getConfig_decode_def)
  ultimately have
    "0 \<le> n \<and> n \<le> MaxConfigSize \<and> length config' = MaxConfigSize
       \<and> (\<forall>i. i < 0 \<or> n \<le> i \<longrightarrow> config' ! i = config ! i)
       \<and> (\<forall>i. 0 \<le> i \<and> i < n \<longrightarrow> config' ! i = eeprom i XOR chipId ! (i mod MaxKeySize))
       \<and> (\<forall>i. 0 \<le> i \<and> i + 1 < n \<longrightarrow> config' ! i \<noteq> 0)
       \<and> (\<not> False \<and> 0 < MaxConfigSize \<longrightarrow> 0 < n)
       \<and> (0 < n \<and> n < MaxConfigSize \<longrightarrow> config' ! (n - 1) = 0)"
    by (intro getConfig_loop_inv [OF assms(1)]) simp_all
  with pos show ?thesis by blast
qed

text \<open>
  C7. Decoding into a buffer of 512 bytes reads the storage from address 0, one byte at a
  time; byte \<open>i\<close> of the buffer is byte \<open>i\<close> of the storage combined by XOR with byte
  \<open>i mod 4\<close> of the key; \<open>n\<close> bytes are decoded, none of them zero but possibly the last,
  and the last is zero unless the capacity of 512 was reached; the buffer behind them is left
  as it was. So for a text without a zero byte that fits the storage with its terminator,
  decoding the encoded text (with anything behind it in the storage) gives the text back:
  the bytes decoded are the text and its terminator, and the C string in the buffer is the
  text. This holds for every key.
\<close>

theorem decode_involution:
  assumes "length config = MaxConfigSize"
  shows "(case getConfig_decode eeprom chipId config of
            (config', n) \<Rightarrow>
              0 < n \<and> n \<le> MaxConfigSize \<and> length config' = MaxConfigSize
              \<and> (\<forall>i. i < n \<longrightarrow> config' ! i = eeprom i XOR chipId ! (i mod MaxKeySize))
              \<and> (\<forall>i. i + 1 < n \<longrightarrow> config' ! i \<noteq> 0)
              \<and> (n < MaxConfigSize \<longrightarrow> config' ! (n - 1) = 0)
              \<and> (\<forall>i. n \<le> i \<longrightarrow> config' ! i = config ! i))
       \<and> (0 \<notin> set plaintext \<and> length plaintext < MaxConfigSize \<longrightarrow>
            (case getConfig_decode (stored (spec_encode (plaintext @ [0]) key) rest) key config of
               (config', n) \<Rightarrow>
                 n = length plaintext + 1
                 \<and> take n config' = plaintext @ [0]
                 \<and> c_str config' = plaintext))"
proof (intro conjI impI)
  obtain config' n where r: "getConfig_decode eeprom chipId config = (config', n)"
    by (cases "getConfig_decode eeprom chipId config")
  from getConfig_decode_inv [OF assms r]
  show "case getConfig_decode eeprom chipId config of
            (config', n) \<Rightarrow>
              0 < n \<and> n \<le> MaxConfigSize \<and> length config' = MaxConfigSize
              \<and> (\<forall>i. i < n \<longrightarrow> config' ! i = eeprom i XOR chipId ! (i mod MaxKeySize))
              \<and> (\<forall>i. i + 1 < n \<longrightarrow> config' ! i \<noteq> 0)
              \<and> (n < MaxConfigSize \<longrightarrow> config' ! (n - 1) = 0)
              \<and> (\<forall>i. n \<le> i \<longrightarrow> config' ! i = config ! i)"
    unfolding r prod.case .
next
  assume p: "0 \<notin> set plaintext \<and> length plaintext < MaxConfigSize"
  define E where "E = stored (spec_encode (plaintext @ [0]) key) rest"
  obtain config' n where r: "getConfig_decode E key config = (config', n)"
    by (cases "getConfig_decode E key config")
  from getConfig_decode_inv [OF assms r]
  have n: "0 < n" "n \<le> MaxConfigSize" and len: "length config' = MaxConfigSize"
    and dec: "\<And>i. i < n \<Longrightarrow> config' ! i = E i XOR key ! (i mod MaxKeySize)"
    and nz: "\<And>i. i + 1 < n \<Longrightarrow> config' ! i \<noteq> 0"
    and last: "n < MaxConfigSize \<Longrightarrow> config' ! (n - 1) = 0"
    by blast+
  have plain: "config' ! i = (plaintext @ [0]) ! i" if "i < n" "i \<le> length plaintext" for i
    using dec [OF that(1)] that(2) by (simp add: E_def decode_encoded_byte)
  have n_eq: "n = length plaintext + 1"
  proof (rule ccontr)
    assume ne: "n \<noteq> length plaintext + 1"
    show False
    proof (cases "n < length plaintext + 1")
      case True
      with p have "n < MaxConfigSize" by simp
      then have z: "config' ! (n - 1) = 0" by (rule last)
      have lt: "n - 1 < length plaintext" using True n by arith
      have "config' ! (n - 1) = (plaintext @ [0]) ! (n - 1)"
        using lt n by (intro plain) auto
      also have "\<dots> = plaintext ! (n - 1)"
        using lt by (simp add: nth_append)
      finally have "plaintext ! (n - 1) = 0" using z by simp
      moreover have "plaintext ! (n - 1) \<in> set plaintext"
        using lt by (rule nth_mem)
      ultimately show False using p by metis
    next
      case False
      with ne have gt: "length plaintext + 1 < n" by simp
      then have "config' ! length plaintext \<noteq> 0" by (rule nz)
      moreover have "config' ! length plaintext = (plaintext @ [0]) ! length plaintext"
        using gt by (intro plain) auto
      ultimately show False by simp
    qed
  qed
  have tk: "take n config' = plaintext @ [0]"
  proof (rule nth_equalityI)
    show "length (take n config') = length (plaintext @ [0])"
      using n len n_eq by simp
  next
    fix i assume "i < length (take n config')"
    then have i: "i < n" by simp
    then show "take n config' ! i = (plaintext @ [0]) ! i"
      using n_eq by (simp add: plain)
  qed
  have "config' = (plaintext @ [0]) @ drop n config'"
    using tk append_take_drop_id [of n config'] by simp
  then have "c_str config' = takeWhile (\<lambda>c. c \<noteq> 0) (plaintext @ 0 # drop n config')"
    by (simp add: c_str_def)
  also have "\<dots> = plaintext"
    using p by (subst takeWhile_append2) auto
  finally have cs: "c_str config' = plaintext" .
  show "case getConfig_decode (stored (spec_encode (plaintext @ [0]) key) rest) key config of
               (config', n) \<Rightarrow>
                 n = length plaintext + 1
                 \<and> take n config' = plaintext @ [0]
                 \<and> c_str config' = plaintext"
    using r n_eq tk cs by (simp add: E_def)
qed


theorem decode_involution_witness:
  "length (replicate 512 (170 :: byte)) = MaxConfigSize
   \<and> 0 \<notin> set [123, 125 :: byte] \<and> length [123, 125 :: byte] < MaxConfigSize
   \<and> snd (getConfig_decode
           (stored (spec_encode ([123, 125] @ [0]) (getConfig_chipId 0xA1B2C3)) (\<lambda>a. 255))
           (getConfig_chipId 0xA1B2C3) (replicate 512 170)) = 3
   \<and> c_str (fst (getConfig_decode
           (stored (spec_encode ([123, 125] @ [0]) (getConfig_chipId 0xA1B2C3)) (\<lambda>a. 255))
           (getConfig_chipId 0xA1B2C3) (replicate 512 170))) = [123, 125]"
  using decode_involution
          [where config = "replicate 512 (170 :: byte)" and plaintext = "[123, 125]"
             and key = "getConfig_chipId 0xA1B2C3" and rest = "\<lambda>a. 255"
             and eeprom = "\<lambda>a. 255" and chipId = "getConfig_chipId 0xA1B2C3"]
  by (simp add: MaxConfigSize_def case_prod_beta)

subsection \<open>The supervisory loop\<close>

lemma prefix_emit: "prefix t (trace s) \<Longrightarrow> prefix t (trace (emit e s))"
  by (simp add: emit_def)

lemma connect_loop_prefix:
  "prefix (trace s) (trace (connect_loop env usr pwd brk prt tries s))"
proof (induction env usr pwd brk prt tries s rule: connect_loop.induct)
  case (1 env usr pwd brk prt tries s)
  show ?case
  proof (cases "\<not> connectR env (trace s @ [Connect (hostName s) usr pwd]) \<and> tries - 1 > 0")
    case False
    then show ?thesis
      by (subst connect_loop.simps) (auto simp: Let_def)
  next
    case True
    let ?s4 = "emit Yield (emit (Serial (CouldNotConnect brk prt
                 (stateR env (trace (emit State (emit (Connect (hostName s) usr pwd) s))))))
                 (emit State (emit (Connect (hostName s) usr pwd) s)))"
    have "prefix (trace ?s4) (trace (connect_loop env usr pwd brk prt (tries - 1) ?s4))"
      using True by (intro "1.IH" [OF refl _ refl refl refl]) simp
    moreover have "prefix (trace s) (trace ?s4)" by simp
    ultimately have "prefix (trace s) (trace (connect_loop env usr pwd brk prt (tries - 1) ?s4))"
      by (rule prefix_order.trans [rotated])
    moreover have "connect_loop env usr pwd brk prt tries s =
                   connect_loop env usr pwd brk prt (tries - 1) ?s4"
      using True by (subst connect_loop.simps) (simp add: Let_def)
    ultimately show ?thesis by simp
  qed
qed

lemma mqttConnect_session_fields:
  "hostName (mqttConnect_session env m s) = hostName s"
  "pins (mqttConnect_session env m s) = pins s"
  "relaySwitched (mqttConnect_session env m s) = relaySwitched s"
  "mqttReady (mqttConnect_session env m s) = mqttReady s"
  "cfg_mqtt (mqttConnect_session env m s) = cfg_mqtt s"
  "count_events isPublish (mqttConnect_session env m s) = count_events isPublish s"
  "count_events isDigitalWrite (mqttConnect_session env m s) = count_events isDigitalWrite s"
  by (simp_all add: mqttConnect_session_def Let_def connect_loop_fields)

lemma mqttConnect_session_prefix:
  "prefix (trace s) (trace (mqttConnect_session env m s))"
proof -
  let ?s3 = "emit SetCallback (emit (SetServer (broker m)
               (as_uint16 (case port m of Some p \<Rightarrow> p | None \<Rightarrow> 1883)))
               (emit (SetBufferSize 512) s))"
  have "prefix (trace ?s3) (trace (mqttConnect_session env m s))"
    unfolding mqttConnect_session_def Let_def by (rule connect_loop_prefix)
  moreover have "prefix (trace s) (trace ?s3)" by simp
  ultimately show ?thesis by (rule prefix_order.trans [rotated])
qed

lemma mqttConnect_fields:
  "hostName (snd (mqttConnect env s)) = hostName s"
  "pins (snd (mqttConnect env s)) = pins s"
  "relaySwitched (snd (mqttConnect env s)) = relaySwitched s"
  "mqttReady (snd (mqttConnect env s)) = mqttReady s"
  "cfg_mqtt (snd (mqttConnect env s)) = cfg_mqtt s"
  "count_events isPublish (snd (mqttConnect env s)) = count_events isPublish s"
  "count_events isDigitalWrite (snd (mqttConnect env s)) = count_events isDigitalWrite s"
  by (simp_all add: mqttConnect_def mqttConnect_subscribe_def Let_def mqttConnect_session_fields
                    split: option.split)

lemma mqttConnect_prefix:
  "prefix (trace s) (trace (snd (mqttConnect env s)))"
proof (cases "cfg_mqtt s")
  case None
  then show ?thesis by (simp add: mqttConnect_def)
next
  case (Some m)
  have "prefix (trace (mqttConnect_session env m s)) (trace (snd (mqttConnect env s)))"
    by (simp add: mqttConnect_def Some mqttConnect_subscribe_def Let_def)
  with mqttConnect_session_prefix [of s env m] show ?thesis
    by (rule prefix_order.trans)
qed


lemma mqttCallback_frame:
  "hostName (mqttCallback topic payload len s) = hostName s"
  "mqttReady (mqttCallback topic payload len s) = mqttReady s"
  "cfg_mqtt (mqttCallback topic payload len s) = cfg_mqtt s"
  "count_events isPublish (mqttCallback topic payload len s) = count_events isPublish s"
  "prefix (trace s) (trace (mqttCallback topic payload len s))"
  "relaySwitched s \<Longrightarrow> relaySwitched (mqttCallback topic payload len s)"
  by (auto simp: mqttCallback_def Let_def digitalWrite_eq count_events_def)

lemma mqttCallback_p0_frame:
  "hostName (mqttCallback_p0 topic payload len s) = hostName s"
  "mqttReady (mqttCallback_p0 topic payload len s) = mqttReady s"
  "cfg_mqtt (mqttCallback_p0 topic payload len s) = cfg_mqtt s"
  "count_events isPublish (mqttCallback_p0 topic payload len s) = count_events isPublish s"
  "prefix (trace s) (trace (mqttCallback_p0 topic payload len s))"
  "relaySwitched s \<Longrightarrow> relaySwitched (mqttCallback_p0 topic payload len s)"
  by (auto simp: mqttCallback_p0_def Let_def digitalWrite_eq count_events_def)

text \<open>A property kept by the callback is kept by the delivery of any list of messages.\<close>

lemma fold_callback_inv:
  assumes "\<And>topic payload len x. P x \<Longrightarrow> P (callback topic payload len x)"
    and "P s"
  shows "P (fold (\<lambda>(topic, payload, len). callback topic payload len) msgs s)"
  using assms(2)
proof (induction msgs arbitrary: s)
  case Nil
  then show ?case by simp
next
  case (Cons msg msgs)
  obtain topic payload len where "msg = (topic, payload, len)" by (cases msg)
  with Cons show ?case by (simp add: assms(1))
qed

lemma mqttClient_loop_inv:
  assumes "\<And>topic payload len x. P x \<Longrightarrow> P (callback topic payload len x)"
    and "P (emit Loop s)"
  shows "P (snd (mqttClient_loop callback env s))"
  using fold_callback_inv [of P callback, OF assms]
  by (simp add: mqttClient_loop_def Let_def split_beta)

lemma mqttClient_loop_result:
  "fst (mqttClient_loop callback env s) = snd (loopR env (trace s @ [Loop]))"
  by (simp add: mqttClient_loop_def Let_def split_beta)

lemma mqttClient_loop_quiet:
  "fst (loopR env (trace s @ [Loop])) = [] \<Longrightarrow>
     mqttClient_loop callback env s = (snd (loopR env (trace s @ [Loop])), emit Loop s)"
  by (simp add: mqttClient_loop_def Let_def split_beta)

lemma kept_refl: "kept s s"
  by (simp add: kept_def)

lemma kept_callback:
  "kept s x \<Longrightarrow> kept s (mqttCallback topic payload len x)"
  "kept s x \<Longrightarrow> kept s (mqttCallback_p0 topic payload len x)"
  unfolding kept_def
  using mqttCallback_frame [where s = x and topic = topic and payload = payload and len = len]
        mqttCallback_p0_frame [where s = x and topic = topic and payload = payload and len = len]
  by (auto intro: prefix_order.trans)

lemma kept_mqttClient_loop:
  "kept (emit Loop s) (snd (mqttClient_loop mqttCallback env s))"
  "kept (emit Loop s) (snd (mqttClient_loop mqttCallback_p0 env s))"
  by (rule mqttClient_loop_inv, erule kept_callback, rule kept_refl)+


lemma count_events_update [simp]:
  "count_events P (s\<lparr>mqttReady := b\<rparr>) = count_events P s"
  "count_events P (s\<lparr>relaySwitched := b\<rparr>) = count_events P s"
  by (simp_all add: count_events_def)

lemma loop_reconnect_frame:
  "relaySwitched (loop_reconnect env s) = relaySwitched s"
  "pins (loop_reconnect env s) = pins s"
  "hostName (loop_reconnect env s) = hostName s"
  "cfg_mqtt (loop_reconnect env s) = cfg_mqtt s"
  "count_events isPublish (loop_reconnect env s) = count_events isPublish s"
  "count_events isDigitalWrite (loop_reconnect env s) = count_events isDigitalWrite s"
  "mqttReady (loop_reconnect env s) = fst (mqttConnect env (emit (Serial Reconnecting) s))"
  by (simp_all add: loop_reconnect_def Let_def split_beta mqttConnect_fields)

lemma loop_reconnect_prefix:
  "prefix (trace s) (trace (loop_reconnect env s))"
proof -
  have "prefix (trace (emit (Serial Reconnecting) s)) (trace (loop_reconnect env s))"
    using mqttConnect_prefix [of "emit (Serial Reconnecting) s" env]
    by (simp add: loop_reconnect_def Let_def split_beta)
  moreover have "prefix (trace s) (trace (emit (Serial Reconnecting) s))" by simp
  ultimately show ?thesis by (rule prefix_order.trans [rotated])
qed

lemma digitalWrite_fields:
  "relaySwitched (digitalWrite pin level s) = relaySwitched s"
  "pins (digitalWrite pin level s) = (pins s)(pin := level)"
  "hostName (digitalWrite pin level s) = hostName s"
  "cfg_mqtt (digitalWrite pin level s) = cfg_mqtt s"
  "mqttReady (digitalWrite pin level s) = mqttReady s"
  "trace (digitalWrite pin level s) = trace s @ [DigitalWrite pin level]"
  "count_events isPublish (digitalWrite pin level s) = count_events isPublish s"
  by (simp_all add: digitalWrite_eq count_events_def)

lemma loop_reconnect_p0_frame:
  "relaySwitched (loop_reconnect_p0 env s) = relaySwitched s"
  "pins (loop_reconnect_p0 env s) = (pins s)(LED_BUILTIN env := LOW)"
  "hostName (loop_reconnect_p0 env s) = hostName s"
  "cfg_mqtt (loop_reconnect_p0 env s) = cfg_mqtt s"
  "count_events isPublish (loop_reconnect_p0 env s) = count_events isPublish s"
  "mqttReady (loop_reconnect_p0 env s) =
     fst (mqttConnect env (emit (Serial Reconnecting) (digitalWrite (LED_BUILTIN env) LOW s)))"
  by (simp_all add: loop_reconnect_p0_def Let_def split_beta mqttConnect_fields
                    digitalWrite_fields)

lemma loop_reconnect_p0_prefix:
  "prefix (trace s) (trace (loop_reconnect_p0 env s))"
proof -
  let ?s1 = "emit (Serial Reconnecting) (digitalWrite (LED_BUILTIN env) LOW s)"
  have "prefix (trace ?s1) (trace (loop_reconnect_p0 env s))"
    using mqttConnect_prefix [of ?s1 env]
    by (simp add: loop_reconnect_p0_def Let_def split_beta)
  moreover have "prefix (trace s) (trace ?s1)" by (simp add: digitalWrite_fields)
  ultimately show ?thesis by (rule prefix_order.trans [rotated])
qed

lemma loop_poll_quiet:
  assumes "fst (loopR env (trace s @ [Loop])) = []"
  shows "loop_poll env s =
           (if snd (loopR env (trace s @ [Loop])) then emit Loop s
            else loop_reconnect env (emit Loop s))"
    and "loop_poll_p0 env s =
           (if snd (loopR env (trace s @ [Loop])) then emit Loop s
            else loop_reconnect_p0 env (emit Loop s))"
  using assms by (simp_all add: loop_poll_def loop_poll_p0_def mqttClient_loop_quiet)

lemma loop_poll_kept:
  "hostName (loop_poll env s) = hostName s"
  "prefix (trace s @ [Loop]) (trace (loop_poll env s))"
  "relaySwitched s \<Longrightarrow> relaySwitched (loop_poll env s)"
  "snd (loopR env (trace s @ [Loop])) \<Longrightarrow> mqttReady (loop_poll env s) = mqttReady s"
proof -
  let ?x = "snd (mqttClient_loop mqttCallback env s)"
  have k: "kept (emit Loop s) ?x" by (rule kept_mqttClient_loop)
  have e: "loop_poll env s =
             (if snd (loopR env (trace s @ [Loop])) then ?x else loop_reconnect env ?x)"
    by (simp add: loop_poll_def split_beta mqttClient_loop_result)
  show "hostName (loop_poll env s) = hostName s"
    using k by (simp add: e kept_def loop_reconnect_frame)
  show "prefix (trace s @ [Loop]) (trace (loop_poll env s))"
    using k loop_reconnect_prefix [of ?x env]
    by (auto simp: e kept_def intro: prefix_order.trans)
  show "relaySwitched s \<Longrightarrow> relaySwitched (loop_poll env s)"
    using k by (simp add: e kept_def loop_reconnect_frame)
  show "snd (loopR env (trace s @ [Loop])) \<Longrightarrow> mqttReady (loop_poll env s) = mqttReady s"
    using k by (simp add: e kept_def)
qed

lemma loop_poll_p0_kept:
  "hostName (loop_poll_p0 env s) = hostName s"
  "prefix (trace s @ [Loop]) (trace (loop_poll_p0 env s))"
  "relaySwitched s \<Longrightarrow> relaySwitched (loop_poll_p0 env s)"
  "snd (loopR env (trace s @ [Loop])) \<Longrightarrow> mqttReady (loop_poll_p0 env s) = mqttReady s"
proof -
  let ?x = "snd (mqttClient_loop mqttCallback_p0 env s)"
  have k: "kept (emit Loop s) ?x" by (rule kept_mqttClient_loop)
  have e: "loop_poll_p0 env s =
             (if snd (loopR env (trace s @ [Loop])) then ?x else loop_reconnect_p0 env ?x)"
    by (simp add: loop_poll_p0_def split_beta mqttClient_loop_result)
  show "hostName (loop_poll_p0 env s) = hostName s"
    using k by (simp add: e kept_def loop_reconnect_p0_frame)
  show "prefix (trace s @ [Loop]) (trace (loop_poll_p0 env s))"
    using k loop_reconnect_p0_prefix [of ?x env]
    by (auto simp: e kept_def intro: prefix_order.trans)
  show "relaySwitched s \<Longrightarrow> relaySwitched (loop_poll_p0 env s)"
    using k by (simp add: e kept_def loop_reconnect_p0_frame)
  show "snd (loopR env (trace s @ [Loop])) \<Longrightarrow> mqttReady (loop_poll_p0 env s) = mqttReady s"
    using k by (simp add: e kept_def)
qed


lemma loop_led_p0_frame:
  "relaySwitched (loop_led_p0 env s) = relaySwitched s"
  "hostName (loop_led_p0 env s) = hostName s"
  "mqttReady (loop_led_p0 env s) = mqttReady s"
  "count_events isPublish (loop_led_p0 env s) = count_events isPublish s"
  "LED_BUILTIN env \<noteq> RelayPort_p0 \<Longrightarrow>
     digitalRead RelayPort_p0 (loop_led_p0 env s) = digitalRead RelayPort_p0 s"
  by (simp_all add: loop_led_p0_def digitalWrite_fields digitalRead_def)

lemma loop_clean:
  "mqttReady s \<Longrightarrow> \<not> relaySwitched s \<Longrightarrow> loop env s = emit (Delay 250) (loop_poll env s)"
  "mqttReady s \<Longrightarrow> \<not> relaySwitched s \<Longrightarrow>
     loop_p0 env s = emit (Delay 250) (loop_poll_p0 env (loop_led_p0 env s))"
  by (simp_all add: loop_def loop_publish_def loop_p0_def loop_publish_p0_def loop_led_p0_frame)

text \<open>
  C9. The body of \<^verbatim>\<open>if (!mqttClient.loop()) {...}\<close> leaves the dirty flag and the level of
  the relay port as they were, makes no publish call (so neither the relay value nor the
  topology is published again) and no write to the relay port, and sets \<^verbatim>\<open>mqttReady\<close> to the
  result of \<^verbatim>\<open>mqttConnect\<close>. In \<^verbatim>\<open>part_000\<close> the same holds, and the path also drives the LED
  pin low; the relay port keeps its level as long as \<open>LED_BUILTIN\<close> is not the relay port.
  A whole cycle that starts ready with a clean flag, receives no message and loses the
  session is the poll followed by this path: it publishes nothing and ends with the flag
  still clean and the relay level unchanged.
\<close>

theorem reconnect_changes_readiness_only:
  "relaySwitched (loop_reconnect env s) = relaySwitched s
   \<and> pins (loop_reconnect env s) = pins s
   \<and> count_events isPublish (loop_reconnect env s) = count_events isPublish s
   \<and> count_events isDigitalWrite (loop_reconnect env s) = count_events isDigitalWrite s
   \<and> mqttReady (loop_reconnect env s) = fst (mqttConnect env (emit (Serial Reconnecting) s))
   \<and> relaySwitched (loop_reconnect_p0 env s) = relaySwitched s
   \<and> pins (loop_reconnect_p0 env s) = (pins s)(LED_BUILTIN env := LOW)
   \<and> (LED_BUILTIN env \<noteq> RelayPort_p0 \<longrightarrow>
        digitalRead RelayPort_p0 (loop_reconnect_p0 env s) = digitalRead RelayPort_p0 s)
   \<and> count_events isPublish (loop_reconnect_p0 env s) = count_events isPublish s
   \<and> mqttReady (loop_reconnect_p0 env s) =
        fst (mqttConnect env (emit (Serial Reconnecting) (digitalWrite (LED_BUILTIN env) LOW s)))
   \<and> (mqttReady s \<and> \<not> relaySwitched s \<and> loopR env (trace s @ [Loop]) = ([], False) \<longrightarrow>
        loop env s = emit (Delay 250) (loop_reconnect env (emit Loop s))
        \<and> count_events isPublish (loop env s) = count_events isPublish s
        \<and> \<not> relaySwitched (loop env s)
        \<and> pins (loop env s) = pins s)
   \<and> (mqttReady s \<and> \<not> relaySwitched s
        \<and> loopR env (trace (loop_led_p0 env s) @ [Loop]) = ([], False)
        \<and> LED_BUILTIN env \<noteq> RelayPort_p0 \<longrightarrow>
        loop_p0 env s = emit (Delay 250) (loop_reconnect_p0 env (emit Loop (loop_led_p0 env s)))
        \<and> count_events isPublish (loop_p0 env s) = count_events isPublish s
        \<and> \<not> relaySwitched (loop_p0 env s)
        \<and> digitalRead RelayPort_p0 (loop_p0 env s) = digitalRead RelayPort_p0 s)"
proof (intro conjI impI)
  assume a: "mqttReady s \<and> \<not> relaySwitched s \<and> loopR env (trace s @ [Loop]) = ([], False)"
  then have e: "loop env s = emit (Delay 250) (loop_reconnect env (emit Loop s))"
    by (simp add: loop_clean loop_poll_quiet)
  show "loop env s = emit (Delay 250) (loop_reconnect env (emit Loop s))" by (rule e)
  show "count_events isPublish (loop env s) = count_events isPublish s"
    by (simp add: e loop_reconnect_frame)
  show "\<not> relaySwitched (loop env s)"
    using a by (simp add: e loop_reconnect_frame)
  show "pins (loop env s) = pins s"
    by (simp add: e loop_reconnect_frame)
next
  assume a: "mqttReady s \<and> \<not> relaySwitched s
        \<and> loopR env (trace (loop_led_p0 env s) @ [Loop]) = ([], False)
        \<and> LED_BUILTIN env \<noteq> RelayPort_p0"
  then have e: "loop_p0 env s =
                  emit (Delay 250) (loop_reconnect_p0 env (emit Loop (loop_led_p0 env s)))"
    by (simp add: loop_clean loop_poll_quiet)
  show "loop_p0 env s = emit (Delay 250) (loop_reconnect_p0 env (emit Loop (loop_led_p0 env s)))"
    by (rule e)
  show "count_events isPublish (loop_p0 env s) = count_events isPublish s"
    by (simp add: e loop_reconnect_p0_frame loop_led_p0_frame)
  show "\<not> relaySwitched (loop_p0 env s)"
    using a by (simp add: e loop_reconnect_p0_frame loop_led_p0_frame)
  have "digitalRead RelayPort_p0 (loop_p0 env s) = digitalRead RelayPort_p0 (loop_led_p0 env s)"
    using a by (simp add: e digitalRead_def loop_reconnect_p0_frame)
  then show "digitalRead RelayPort_p0 (loop_p0 env s) = digitalRead RelayPort_p0 s"
    using a by (simp add: loop_led_p0_frame)
qed (simp_all add: loop_reconnect_frame loop_reconnect_p0_frame digitalRead_def)

theorem reconnect_changes_readiness_only_witness:
  "loop (sample_env True True True False) (sample_device True False) =
     (sample_device True False)\<lparr>trace :=
        [Loop, Serial Reconnecting, SetBufferSize 512, SetServer (Some ''nas'') 1883, SetCallback,
         Connect (Some ''relay'') (Some ''switch'') (Some ''secret''), Connected,
         Subscribe ''homie/relay/switch/1/set'', Serial (SubscribedTo ''homie/relay/switch/1/set''),
         Delay 250]\<rparr>
   \<and> count_events isPublish (loop (sample_env True True True False) (sample_device True False)) = 0
   \<and> loop_p0 (sample_env True True True False) (sample_device True False) =
     (sample_device True False)\<lparr>pins := (pins (sample_device True False))(2 := False), trace :=
        [Loop, DigitalWrite 2 False, Serial Reconnecting, SetBufferSize 512,
         SetServer (Some ''nas'') 1883, SetCallback,
         Connect (Some ''relay'') (Some ''switch'') (Some ''secret''), Connected,
         Subscribe ''homie/relay/switch/1/set'', Serial (SubscribedTo ''homie/relay/switch/1/set''),
         Delay 250]\<rparr>
   \<and> digitalRead RelayPort_p0 (loop_p0 (sample_env True True True False) (sample_device True False))
       = digitalRead RelayPort_p0 (sample_device True False)"
  using reconnect_changes_readiness_only
          [of "sample_env True True True False" "sample_device True False"]
  by (simp add: sample_env_def sample_device_def loop_reconnect_def loop_reconnect_p0_def
                loop_led_p0_def mqttConnect_def mqttConnect_subscribe_def mqttConnect_session_eq
                as_uint16_def connect_loop_3 Let_def emit_def digitalWrite_eq digitalRead_def
                SafeCString_sprintf_def fmt_s_def HIGH_def LOW_def RelayPort_p0_def
                count_events_def)


lemma loop_publish_dirty:
  assumes "relaySwitched s" and "hostName s = Some h"
  shows "loop_publish env s =
    (let v = Some (if digitalRead RelayPort s then ''true'' else ''false'');
         t = trace s @ [Serial (Publishing v ''switch/1''),
                        Publish (SafeCString_sprintf 100 (''homie/'' @ h @ ''/switch/1'')) v];
         ok = publishR env t
     in s\<lparr>relaySwitched := \<not> ok,
           trace := t @ [Serial (if ok then PublishSucceeded else PublishFailed)]\<rparr>)"
  using assms
  by (simp add: loop_publish_def mqttPublish_bool_def mqttPublish_Some Let_def
                trueString_def falseString_def)

lemma loop_publish_p0_dirty:
  assumes "relaySwitched s" and "hostName s = Some h"
  shows "loop_publish_p0 env s =
    (let v = Some (if digitalRead RelayPort_p0 s then ''false'' else ''true'');
         t = trace s @ [Serial (Publishing v ''switch/1''),
                        Publish (SafeCString_sprintf 100 (''homie/'' @ h @ ''/switch/1'')) v];
         ok = publishR env t
     in s\<lparr>relaySwitched := \<not> ok,
           trace := t @ [Serial (if ok then PublishSucceeded else PublishFailed)]\<rparr>)"
  using assms
  by (simp add: loop_publish_p0_def mqttPublish_bool_def mqttPublish_Some Let_def
                trueString_def falseString_def)

text \<open>
  C1. In a cycle that starts ready, dirty and with a host name \<open>h\<close>, the first calls are the
  publish of the relay value to \<^verbatim>\<open>homie/<h>/switch/1\<close>: in \<^verbatim>\<open>MainsSwitch.ino\<close> the text
  \<^verbatim>\<open>true\<close> or \<^verbatim>\<open>false\<close> of the level read from the relay port at that moment, in \<^verbatim>\<open>part_000\<close>
  (after the LED step, relay on when the port is low) the text of the negated level. After
  the publish statement the dirty flag is false exactly when the publish reported success.
  When the publish failed, the flag is still true at the end of the cycle; and when moreover
  the client's \<^verbatim>\<open>loop()\<close> delivers no message and succeeds, the device ends the cycle as it
  started it but for the calls recorded, so the next cycle publishes the same value again.
  When the publish succeeded and no message arrives in the cycle, the flag is false at its
  end (a command that switches the relay in the same cycle sets it again).
\<close>

theorem dirty_flag_cleared_on_publish:
  assumes "mqttReady s" and "relaySwitched s" and "hostName s = Some h"
  shows "(let v = Some (if digitalRead RelayPort s then ''true'' else ''false'');
              t = trace s @ [Serial (Publishing v ''switch/1''),
                             Publish (SafeCString_sprintf 100 (''homie/'' @ h @ ''/switch/1'')) v];
              ok = publishR env t;
              t' = t @ [Serial (if ok then PublishSucceeded else PublishFailed), Loop]
          in loop_publish env s =
               s\<lparr>relaySwitched := \<not> ok,
                 trace := t @ [Serial (if ok then PublishSucceeded else PublishFailed)]\<rparr>
             \<and> prefix t' (trace (loop env s))
             \<and> (\<not> ok \<longrightarrow> relaySwitched (loop env s))
             \<and> (ok \<and> fst (loopR env t') = [] \<longrightarrow> \<not> relaySwitched (loop env s))
             \<and> (\<not> ok \<and> loopR env t' = ([], True) \<longrightarrow>
                  loop env s = s\<lparr>trace := t' @ [Delay 250]\<rparr>))
       \<and> (let s0 = loop_led_p0 env s;
               v = Some (if digitalRead RelayPort_p0 s0 then ''false'' else ''true'');
               t = trace s0 @ [Serial (Publishing v ''switch/1''),
                              Publish (SafeCString_sprintf 100 (''homie/'' @ h @ ''/switch/1'')) v];
               ok = publishR env t;
               t' = t @ [Serial (if ok then PublishSucceeded else PublishFailed), Loop]
           in loop_publish_p0 env s0 =
                s0\<lparr>relaySwitched := \<not> ok,
                   trace := t @ [Serial (if ok then PublishSucceeded else PublishFailed)]\<rparr>
              \<and> prefix t' (trace (loop_p0 env s))
              \<and> (\<not> ok \<longrightarrow> relaySwitched (loop_p0 env s))
              \<and> (ok \<and> fst (loopR env t') = [] \<longrightarrow> \<not> relaySwitched (loop_p0 env s))
              \<and> (\<not> ok \<and> loopR env t' = ([], True) \<longrightarrow>
                   loop_p0 env s = s0\<lparr>trace := t' @ [Delay 250]\<rparr>))"
proof (rule conjI)
  define v where "v = Some (if digitalRead RelayPort s then ''true'' else ''false'')"
  define t where "t = trace s @ [Serial (Publishing v ''switch/1''),
                      Publish (SafeCString_sprintf 100 (''homie/'' @ h @ ''/switch/1'')) v]"
  define ok where "ok = publishR env t"
  define sp where "sp = s\<lparr>relaySwitched := \<not> ok,
                           trace := t @ [Serial (if ok then PublishSucceeded else PublishFailed)]\<rparr>"
  define t' where "t' = t @ [Serial (if ok then PublishSucceeded else PublishFailed), Loop]"
  have lp: "loop_publish env s = sp"
    using loop_publish_dirty [OF assms(2,3), of env]
    by (simp add: Let_def sp_def ok_def t_def v_def)
  have tr: "trace sp @ [Loop] = t'" by (simp add: sp_def t'_def)
  have lo: "loop env s = emit (Delay 250) (loop_poll env sp)"
    using assms(1) by (simp add: loop_def lp)
  have p: "prefix t' (trace (loop env s))"
    using loop_poll_kept(2) [of sp env] by (simp add: lo tr)
  have f: "\<not> ok \<longrightarrow> relaySwitched (loop env s)"
    using loop_poll_kept(3) [of sp env] by (simp add: lo sp_def)
  have q: "ok \<and> fst (loopR env t') = [] \<longrightarrow> \<not> relaySwitched (loop env s)"
  proof
    assume a: "ok \<and> fst (loopR env t') = []"
    then have "fst (loopR env (trace sp @ [Loop])) = []" by (simp add: tr)
    then have "relaySwitched (loop_poll env sp) = relaySwitched sp"
      by (simp add: loop_poll_quiet loop_reconnect_frame)
    with a show "\<not> relaySwitched (loop env s)" by (simp add: lo sp_def)
  qed
  have r: "\<not> ok \<and> loopR env t' = ([], True) \<longrightarrow> loop env s = s\<lparr>trace := t' @ [Delay 250]\<rparr>"
  proof
    assume a: "\<not> ok \<and> loopR env t' = ([], True)"
    then have "loopR env (trace sp @ [Loop]) = ([], True)" by (simp add: tr)
    then have "loop_poll env sp = emit Loop sp"
      by (simp add: loop_poll_quiet)
    with a assms(2) show "loop env s = s\<lparr>trace := t' @ [Delay 250]\<rparr>"
      by (simp add: lo sp_def t'_def emit_def)
  qed
  from lp p f q r
  show "let v = Some (if digitalRead RelayPort s then ''true'' else ''false'');
              t = trace s @ [Serial (Publishing v ''switch/1''),
                             Publish (SafeCString_sprintf 100 (''homie/'' @ h @ ''/switch/1'')) v];
              ok = publishR env t;
              t' = t @ [Serial (if ok then PublishSucceeded else PublishFailed), Loop]
          in loop_publish env s =
               s\<lparr>relaySwitched := \<not> ok,
                 trace := t @ [Serial (if ok then PublishSucceeded else PublishFailed)]\<rparr>
             \<and> prefix t' (trace (loop env s))
             \<and> (\<not> ok \<longrightarrow> relaySwitched (loop env s))
             \<and> (ok \<and> fst (loopR env t') = [] \<longrightarrow> \<not> relaySwitched (loop env s))
             \<and> (\<not> ok \<and> loopR env t' = ([], True) \<longrightarrow>
                  loop env s = s\<lparr>trace := t' @ [Delay 250]\<rparr>)"
    unfolding Let_def sp_def t'_def ok_def t_def v_def by blast
next
  define s0 where "s0 = loop_led_p0 env s"
  have s0: "relaySwitched s0" "hostName s0 = Some h"
    using assms by (simp_all add: s0_def loop_led_p0_frame)
  define v where "v = Some (if digitalRead RelayPort_p0 s0 then ''false'' else ''true'')"
  define t where "t = trace s0 @ [Serial (Publishing v ''switch/1''),
                      Publish (SafeCString_sprintf 100 (''homie/'' @ h @ ''/switch/1'')) v]"
  define ok where "ok = publishR env t"
  define sp where "sp = s0\<lparr>relaySwitched := \<not> ok,
                           trace := t @ [Serial (if ok then PublishSucceeded else PublishFailed)]\<rparr>"
  define t' where "t' = t @ [Serial (if ok then PublishSucceeded else PublishFailed), Loop]"
  have lp: "loop_publish_p0 env s0 = sp"
    using loop_publish_p0_dirty [OF s0, of env]
    by (simp add: Let_def sp_def ok_def t_def v_def)
  have tr: "trace sp @ [Loop] = t'" by (simp add: sp_def t'_def)
  have lo: "loop_p0 env s = emit (Delay 250) (loop_poll_p0 env sp)"
    using assms(1) by (simp add: loop_p0_def lp [symmetric] s0_def)
  have p: "prefix t' (trace (loop_p0 env s))"
    using loop_poll_p0_kept(2) [of sp env] by (simp add: lo tr)
  have f: "\<not> ok \<longrightarrow> relaySwitched (loop_p0 env s)"
    using loop_poll_p0_kept(3) [of sp env] by (simp add: lo sp_def)
  have q: "ok \<and> fst (loopR env t') = [] \<longrightarrow> \<not> relaySwitched (loop_p0 env s)"
  proof
    assume a: "ok \<and> fst (loopR env t') = []"
    then have "fst (loopR env (trace sp @ [Loop])) = []" by (simp add: tr)
    then have "relaySwitched (loop_poll_p0 env sp) = relaySwitched sp"
      by (simp add: loop_poll_quiet loop_reconnect_p0_frame)
    with a show "\<not> relaySwitched (loop_p0 env s)" by (simp add: lo sp_def)
  qed
  have r: "\<not> ok \<and> loopR env t' = ([], True) \<longrightarrow> loop_p0 env s = s0\<lparr>trace := t' @ [Delay 250]\<rparr>"
  proof
    assume a: "\<not> ok \<and> loopR env t' = ([], True)"
    then have "loopR env (trace sp @ [Loop]) = ([], True)" by (simp add: tr)
    then have "loop_poll_p0 env sp = emit Loop sp"
      by (simp add: loop_poll_quiet)
    with a s0(1) show "loop_p0 env s = s0\<lparr>trace := t' @ [Delay 250]\<rparr>"
      by (simp add: lo sp_def t'_def emit_def)
  qed
  from lp p f q r
  show "let s0 = loop_led_p0 env s;
               v = Some (if digitalRead RelayPort_p0 s0 then ''false'' else ''true'');
               t = trace s0 @ [Serial (Publishing v ''switch/1''),
                              Publish (SafeCString_sprintf 100 (''homie/'' @ h @ ''/switch/1'')) v];
               ok = publishR env t;
               t' = t @ [Serial (if ok then PublishSucceeded else PublishFailed), Loop]
           in loop_publish_p0 env s0 =
                s0\<lparr>relaySwitched := \<not> ok,
                   trace := t @ [Serial (if ok then PublishSucceeded else PublishFailed)]\<rparr>
              \<and> prefix t' (trace (loop_p0 env s))
              \<and> (\<not> ok \<longrightarrow> relaySwitched (loop_p0 env s))
              \<and> (ok \<and> fst (loopR env t') = [] \<longrightarrow> \<not> relaySwitched (loop_p0 env s))
              \<and> (\<not> ok \<and> loopR env t' = ([], True) \<longrightarrow>
                   loop_p0 env s = s0\<lparr>trace := t' @ [Delay 250]\<rparr>)"
    unfolding Let_def sp_def t'_def ok_def t_def v_def s0_def by blast
qed


theorem dirty_flag_cleared_on_publish_witness:
  "loop (sample_env True True True True) (sample_device True True) =
     (sample_device True True)\<lparr>relaySwitched := False, trace :=
        [Serial (Publishing (Some ''true'') ''switch/1''),
         Publish ''homie/relay/switch/1'' (Some ''true''),
         Serial PublishSucceeded, Loop, Delay 250]\<rparr>
   \<and> loop (sample_env True False True True) (sample_device True True) =
     (sample_device True True)\<lparr>trace :=
        [Serial (Publishing (Some ''true'') ''switch/1''),
         Publish ''homie/relay/switch/1'' (Some ''true''),
         Serial PublishFailed, Loop, Delay 250]\<rparr>
   \<and> loop (sample_env True False True True)
        (loop (sample_env True False True True) (sample_device True True)) =
     (sample_device True True)\<lparr>trace :=
        [Serial (Publishing (Some ''true'') ''switch/1''),
         Publish ''homie/relay/switch/1'' (Some ''true''),
         Serial PublishFailed, Loop, Delay 250,
         Serial (Publishing (Some ''true'') ''switch/1''),
         Publish ''homie/relay/switch/1'' (Some ''true''),
         Serial PublishFailed, Loop, Delay 250]\<rparr>
   \<and> loop_p0 (sample_env True True True True) (sample_device True True) =
     (sample_device True True)\<lparr>relaySwitched := False, trace :=
        [Serial (Publishing (Some ''false'') ''switch/1''),
         Publish ''homie/relay/switch/1'' (Some ''false''),
         Serial PublishSucceeded, Loop, Delay 250]\<rparr>
   \<and> loop_p0 (sample_env True False True True) (sample_device True True) =
     (sample_device True True)\<lparr>trace :=
        [Serial (Publishing (Some ''false'') ''switch/1''),
         Publish ''homie/relay/switch/1'' (Some ''false''),
         Serial PublishFailed, Loop, Delay 250]\<rparr>"
  using dirty_flag_cleared_on_publish
          [of "sample_device True True" "''relay''" "sample_env True True True True"]
        dirty_flag_cleared_on_publish
          [of "sample_device True True" "''relay''" "sample_env True False True True"]
        dirty_flag_cleared_on_publish
          [of "loop (sample_env True False True True) (sample_device True True)" "''relay''"
              "sample_env True False True True"]
  by (simp add: sample_env_def sample_device_def loop_def loop_p0_def loop_publish_def
                loop_publish_p0_def loop_led_p0_def loop_poll_def loop_poll_p0_def
                mqttClient_loop_def mqttPublish_bool_def mqttPublish_def Let_def emit_def
                digitalRead_def SafeCString_sprintf_def HIGH_def LOW_def RelayPort_def
                RelayPort_p0_def trueString_def falseString_def)

lemma mqttAnnounce_fst:
  "fst (mqttAnnounce env s) = fst (mqttPublish env ''$homie'' (Some ''4.0.0'') s)"
  by (simp add: mqttAnnounce_def split_beta Let_def)

lemma mqttAnnounce_hostName:
  "hostName (snd (mqttAnnounce env s)) = hostName s"
  by (simp add: mqttAnnounce_def split_beta Let_def mqttPublish_fields)

lemma setup_ready_has_host:
  "mqttReady (setup_mqttReady env s) \<Longrightarrow> hostName (setup_mqttReady env s) \<noteq> None"
proof -
  assume r: "mqttReady (setup_mqttReady env s)"
  let ?s1 = "snd (mqttConnect env s)"
  from r have c: "fst (mqttConnect env s)"
    by (auto simp: setup_mqttReady_def split_beta split: if_splits)
  with r have "fst (mqttAnnounce env ?s1)"
    by (simp add: setup_mqttReady_def split_beta)
  then have "hostName ?s1 \<noteq> None"
    unfolding mqttAnnounce_fst by (rule mqttPublish_True_host)
  with c show ?thesis
    by (simp add: setup_mqttReady_def split_beta mqttAnnounce_hostName)
qed

lemma loop_publish_hostName:
  "hostName (loop_publish env s) = hostName s"
  "hostName (loop_publish_p0 env s) = hostName s"
  by (simp_all add: loop_publish_def loop_publish_p0_def mqttPublish_bool_def split_beta
                    mqttPublish_fields)

lemma loop_hostName:
  "hostName (loop env s) = hostName s"
  "hostName (loop_p0 env s) = hostName s"
  by (simp_all add: loop_def loop_p0_def loop_poll_kept loop_poll_p0_kept loop_publish_hostName
                    loop_led_p0_frame)

text \<open>A ready device has a host name: true after \<^verbatim>\<open>setup\<close>, and kept by every cycle.\<close>

lemma loop_ready_has_host:
  assumes "mqttReady s \<longrightarrow> hostName s \<noteq> None"
  shows "mqttReady (loop env s) \<longrightarrow> hostName (loop env s) \<noteq> None"
    and "mqttReady (loop_p0 env s) \<longrightarrow> hostName (loop_p0 env s) \<noteq> None"
proof -
  show "mqttReady (loop env s) \<longrightarrow> hostName (loop env s) \<noteq> None"
  proof (cases "mqttReady s")
    case True
    with assms show ?thesis by (simp add: loop_hostName)
  next
    case False
    then have "loop env s = s" by (simp add: loop_def)
    with False show ?thesis by simp
  qed
  show "mqttReady (loop_p0 env s) \<longrightarrow> hostName (loop_p0 env s) \<noteq> None"
  proof (cases "mqttReady s")
    case True
    with assms show ?thesis by (simp add: loop_hostName)
  next
    case False
    then have "loop_p0 env s = s" by (simp add: loop_p0_def)
    with False show ?thesis by simp
  qed
qed

text \<open>
  A command that arrives in the cycle that published: the publish of \<^verbatim>\<open>false\<close> succeeds and
  clears the flag, then the command \<^verbatim>\<open>true\<close> drives the port high and sets the flag again, so
  the cycle ends dirty and the next one publishes the new value.
\<close>

lemma command_in_publishing_cycle:
  "loop command_env (sample_device False True) =
     (sample_device False True)\<lparr>pins := (pins (sample_device False True))(RelayPort := True),
        relaySwitched := True,
        trace :=
        [Serial (Publishing (Some ''false'') ''switch/1''),
         Publish ''homie/relay/switch/1'' (Some ''false''),
         Serial PublishSucceeded, Loop, DigitalWrite RelayPort True, Delay 250]\<rparr>"
  by (simp add: command_env_def sample_env_def sample_device_def loop_def loop_publish_def
                loop_poll_def mqttClient_loop_def mqttPublish_bool_def mqttPublish_def Let_def
                emit_def digitalRead_def digitalWrite_eq SafeCString_sprintf_def HIGH_def LOW_def
                RelayPort_def trueString_def falseString_def mqttCallback_def equals_iff_take)

end
